theory Spec2Isabelle
  imports Main "HOL-Library.Word" "HOL-Library.AList"
begin

unbundle bit_operations_syntax

section \<open>Native types\<close>

text \<open>
  The 64-bit Windows ABI: handles, \<open>WPARAM\<close>, \<open>LPARAM\<close> and \<open>LRESULT\<close> are 64-bit
  machine words; \<open>UINT\<close>, \<open>DWORD\<close>, \<open>LONG\<close> and \<open>int\<close> are 32-bit words and
  \<open>WORD\<close>, \<open>SHORT\<close> 16-bit words, read as signed with \<open>sint\<close> where the C type is
  signed. Arithmetic wraps around. A pointer to a C++ object is a 64-bit word as well,
  the null pointer being 0.
\<close>

type_synonym ptr = "64 word"
type_synonym HWND = "64 word"
type_synonym WId = "64 word"
type_synonym HMONITOR = "64 word"
type_synonym WORD = "16 word"
type_synonym UINT = "32 word"
type_synonym DWORD = "32 word"
type_synonym LONG = "32 word"
type_synonym WPARAM = "64 word"
type_synonym LPARAM = "64 word"
type_synonym LRESULT = "64 word"

record RECT =
  left_edge :: LONG
  top_edge :: LONG
  right_edge :: LONG
  bottom_edge :: LONG

record POINT =
  x_coord :: LONG
  y_coord :: LONG

section \<open>Constants of the Windows headers\<close>

named_theorems win32 \<open>values of the constants of the Windows headers\<close>

text \<open>Window messages (winuser.h).\<close>

definition WM_DESTROY :: "UINT" where [win32]: "WM_DESTROY = 0x0002"
definition WM_CLOSE :: "UINT" where [win32]: "WM_CLOSE = 0x0010"
definition WM_NCDESTROY :: "UINT" where [win32]: "WM_NCDESTROY = 0x0082"
definition WM_NCCALCSIZE :: "UINT" where [win32]: "WM_NCCALCSIZE = 0x0083"
definition WM_NCHITTEST :: "UINT" where [win32]: "WM_NCHITTEST = 0x0084"
definition WM_UAHDESTROYWINDOW :: "UINT" where [win32]: "WM_UAHDESTROYWINDOW = 0x0090"
definition WM_UNREGISTER_WINDOW_SERVICES :: "UINT" where [win32]: "WM_UNREGISTER_WINDOW_SERVICES = 0x0272"
definition WM_NCMOUSEMOVE :: "UINT" where [win32]: "WM_NCMOUSEMOVE = 0x00A0"
definition WM_NCLBUTTONDOWN :: "UINT" where [win32]: "WM_NCLBUTTONDOWN = 0x00A1"
definition WM_NCLBUTTONUP :: "UINT" where [win32]: "WM_NCLBUTTONUP = 0x00A2"
definition WM_NCLBUTTONDBLCLK :: "UINT" where [win32]: "WM_NCLBUTTONDBLCLK = 0x00A3"
definition WM_NCRBUTTONDOWN :: "UINT" where [win32]: "WM_NCRBUTTONDOWN = 0x00A4"
definition WM_NCRBUTTONUP :: "UINT" where [win32]: "WM_NCRBUTTONUP = 0x00A5"
definition WM_NCRBUTTONDBLCLK :: "UINT" where [win32]: "WM_NCRBUTTONDBLCLK = 0x00A6"
definition WM_NCMBUTTONDOWN :: "UINT" where [win32]: "WM_NCMBUTTONDOWN = 0x00A7"
definition WM_NCMBUTTONUP :: "UINT" where [win32]: "WM_NCMBUTTONUP = 0x00A8"
definition WM_NCMBUTTONDBLCLK :: "UINT" where [win32]: "WM_NCMBUTTONDBLCLK = 0x00A9"
definition WM_NCXBUTTONDOWN :: "UINT" where [win32]: "WM_NCXBUTTONDOWN = 0x00AB"
definition WM_NCXBUTTONUP :: "UINT" where [win32]: "WM_NCXBUTTONUP = 0x00AC"
definition WM_NCXBUTTONDBLCLK :: "UINT" where [win32]: "WM_NCXBUTTONDBLCLK = 0x00AD"
definition WM_MOUSEMOVE :: "UINT" where [win32]: "WM_MOUSEMOVE = 0x0200"
definition WM_LBUTTONDOWN :: "UINT" where [win32]: "WM_LBUTTONDOWN = 0x0201"
definition WM_LBUTTONUP :: "UINT" where [win32]: "WM_LBUTTONUP = 0x0202"
definition WM_LBUTTONDBLCLK :: "UINT" where [win32]: "WM_LBUTTONDBLCLK = 0x0203"
definition WM_RBUTTONDOWN :: "UINT" where [win32]: "WM_RBUTTONDOWN = 0x0204"
definition WM_RBUTTONUP :: "UINT" where [win32]: "WM_RBUTTONUP = 0x0205"
definition WM_RBUTTONDBLCLK :: "UINT" where [win32]: "WM_RBUTTONDBLCLK = 0x0206"
definition WM_MBUTTONDOWN :: "UINT" where [win32]: "WM_MBUTTONDOWN = 0x0207"
definition WM_MBUTTONUP :: "UINT" where [win32]: "WM_MBUTTONUP = 0x0208"
definition WM_MBUTTONDBLCLK :: "UINT" where [win32]: "WM_MBUTTONDBLCLK = 0x0209"
definition WM_XBUTTONDOWN :: "UINT" where [win32]: "WM_XBUTTONDOWN = 0x020B"
definition WM_XBUTTONUP :: "UINT" where [win32]: "WM_XBUTTONUP = 0x020C"
definition WM_XBUTTONDBLCLK :: "UINT" where [win32]: "WM_XBUTTONDBLCLK = 0x020D"
definition WM_NCMOUSEHOVER :: "UINT" where [win32]: "WM_NCMOUSEHOVER = 0x02A0"
definition WM_MOUSEHOVER :: "UINT" where [win32]: "WM_MOUSEHOVER = 0x02A1"
definition WM_NCMOUSELEAVE :: "UINT" where [win32]: "WM_NCMOUSELEAVE = 0x02A2"
definition WM_MOUSELEAVE :: "UINT" where [win32]: "WM_MOUSELEAVE = 0x02A3"

text \<open>Key-state flags and virtual keys.\<close>

definition MK_LBUTTON :: "UINT" where [win32]: "MK_LBUTTON = 0x0001"
definition MK_RBUTTON :: "UINT" where [win32]: "MK_RBUTTON = 0x0002"
definition MK_SHIFT :: "UINT" where [win32]: "MK_SHIFT = 0x0004"
definition MK_CONTROL :: "UINT" where [win32]: "MK_CONTROL = 0x0008"
definition MK_MBUTTON :: "UINT" where [win32]: "MK_MBUTTON = 0x0010"
definition MK_XBUTTON1 :: "UINT" where [win32]: "MK_XBUTTON1 = 0x0020"
definition MK_XBUTTON2 :: "UINT" where [win32]: "MK_XBUTTON2 = 0x0040"
definition VK_LBUTTON :: "UINT" where [win32]: "VK_LBUTTON = 0x01"
definition VK_RBUTTON :: "UINT" where [win32]: "VK_RBUTTON = 0x02"
definition VK_MBUTTON :: "UINT" where [win32]: "VK_MBUTTON = 0x04"
definition VK_XBUTTON1 :: "UINT" where [win32]: "VK_XBUTTON1 = 0x05"
definition VK_XBUTTON2 :: "UINT" where [win32]: "VK_XBUTTON2 = 0x06"
definition VK_SHIFT :: "UINT" where [win32]: "VK_SHIFT = 0x10"
definition VK_CONTROL :: "UINT" where [win32]: "VK_CONTROL = 0x11"

text \<open>System metrics, monitors, window styles, mouse tracking, application bars.\<close>

definition SM_SWAPBUTTON :: "UINT" where [win32]: "SM_SWAPBUTTON = 23"
definition SM_CXSIZEFRAME :: "UINT" where [win32]: "SM_CXSIZEFRAME = 32"
definition SM_CXPADDEDBORDER :: "UINT" where [win32]: "SM_CXPADDEDBORDER = 92"
definition USER_DEFAULT_SCREEN_DPI :: "UINT" where [win32]: "USER_DEFAULT_SCREEN_DPI = 96"
definition MONITOR_DEFAULTTOPRIMARY :: "UINT" where [win32]: "MONITOR_DEFAULTTOPRIMARY = 1"
definition MONITOR_DEFAULTTONEAREST :: "UINT" where [win32]: "MONITOR_DEFAULTTONEAREST = 2"
definition GWL_STYLE :: "UINT" where [win32]: "GWL_STYLE = - 16"
definition GWL_EXSTYLE :: "UINT" where [win32]: "GWL_EXSTYLE = - 20"
definition GA_ROOT :: "UINT" where [win32]: "GA_ROOT = 2"
definition TME_LEAVE :: "UINT" where [win32]: "TME_LEAVE = 0x00000002"
definition TME_NONCLIENT :: "UINT" where [win32]: "TME_NONCLIENT = 0x00000010"
definition HOVER_DEFAULT :: "UINT" where [win32]: "HOVER_DEFAULT = 0xFFFFFFFF"
definition ABS_AUTOHIDE :: "UINT" where [win32]: "ABS_AUTOHIDE = 0x0000001"
definition ABE_LEFT :: "UINT" where [win32]: "ABE_LEFT = 0"
definition ABE_TOP :: "UINT" where [win32]: "ABE_TOP = 1"
definition ABE_RIGHT :: "UINT" where [win32]: "ABE_RIGHT = 2"
definition ABE_BOTTOM :: "UINT" where [win32]: "ABE_BOTTOM = 3"

text \<open>Window styles, as read by \<open>GetWindowLongPtrW\<close>.\<close>

definition WS_DISABLED :: "64 word" where [win32]: "WS_DISABLED = 0x08000000"
definition WS_EX_TOOLWINDOW :: "64 word" where [win32]: "WS_EX_TOOLWINDOW = 0x00000080"

text \<open>Result codes.\<close>

definition HTERROR :: "LRESULT" where [win32]: "HTERROR = - 2"
definition HTNOWHERE :: "LRESULT" where [win32]: "HTNOWHERE = 0"
definition WVR_REDRAW :: "LRESULT" where [win32]: "WVR_REDRAW = 0x0300"

section \<open>Macros of the Windows headers\<close>

definition LOWORD :: "64 word \<Rightarrow> WORD" where
  "LOWORD l = ucast (l AND 0xffff)"

definition HIWORD :: "64 word \<Rightarrow> WORD" where
  "HIWORD l = ucast (drop_bit 16 l AND 0xffff)"

definition MAKELONG :: "64 word \<Rightarrow> 64 word \<Rightarrow> 32 word" where
  "MAKELONG a b = ucast (LOWORD a) OR push_bit 16 (ucast (LOWORD b))"

definition MAKEWPARAM :: "64 word \<Rightarrow> 64 word \<Rightarrow> WPARAM" where
  "MAKEWPARAM l h = ucast (MAKELONG l h)"

definition MAKELPARAM :: "64 word \<Rightarrow> 64 word \<Rightarrow> LPARAM" where
  "MAKELPARAM l h = ucast (MAKELONG l h)"

definition GET_XBUTTON_WPARAM :: "WPARAM \<Rightarrow> WORD" where
  "GET_XBUTTON_WPARAM wParam = HIWORD wParam"

text \<open>\<^verbatim>\<open>((int)(short)LOWORD(lp))\<close> and \<^verbatim>\<open>((int)(short)HIWORD(lp))\<close>: sign-extended.\<close>

definition GET_X_LPARAM :: "64 word \<Rightarrow> 32 word" where
  "GET_X_LPARAM lp = scast (LOWORD lp)"

definition GET_Y_LPARAM :: "64 word \<Rightarrow> 32 word" where
  "GET_Y_LPARAM lp = scast (HIWORD lp)"

section \<open>The operating system and the toolkit, as the handlers see them\<close>

text \<open>
  A window procedure is a function pointer: null, the address of the hook
  \<open>QWKHookedWndProc\<close> of this program, or the address of some other procedure.
\<close>

datatype WNDPROC = null_WNDPROC | QWKHookedWndProc_address | other_WNDPROC nat

text \<open>
  The optional entry points that \<open>DynamicApis\<close> resolves once: \<open>None\<close> is an entry
  point that could not be resolved. \<open>GetDpiForMonitor\<close> writes the DPI through a
  pointer; \<open>None\<close> is a call that wrote nothing.
\<close>

record DynamicApis =
  pGetDpiForWindow :: "(HWND \<Rightarrow> UINT) option"
  pGetSystemMetricsForDpi :: "(UINT \<Rightarrow> UINT \<Rightarrow> 32 word) option"
  pGetDpiForMonitor :: "(HMONITOR \<Rightarrow> UINT option) option"

text \<open>
  The answers of the operating system and of the toolkit while one message is handled.
  A call that fills a structure through a pointer answers \<open>None\<close> when it fails and
  leaves the structure as it was. \<open>DefWindowProcW\<close> is the result of the default
  procedure and \<open>DefWindowProcW_rect\<close> the client rectangle it leaves behind
  \<open>lParam\<close> for \<open>WM_NCCALCSIZE\<close>. \<open>isInSystemButtons\<close> is declared in a header
  that is not part of the sources at hand and is taken as a parameter, as are
  \<open>QHighDpi::fromNativeLocalPosition\<close> and \<open>QWindow::winId\<close> of the toolkit.
\<close>

record os_env =
  apis :: DynamicApis
  isWin8Point1OrGreater :: bool
  isWin10OrGreater :: bool
  IsWindow :: "HWND \<Rightarrow> bool"
  GetWindowLongPtrW :: "HWND \<Rightarrow> UINT \<Rightarrow> 64 word"
  GetWindowRect :: "HWND \<Rightarrow> RECT option"
  IsWindowVisible :: "HWND \<Rightarrow> bool"
  GetAncestor :: "HWND \<Rightarrow> UINT \<Rightarrow> HWND"
  IsMaximized :: "HWND \<Rightarrow> bool"
  MonitorFromWindow :: "HWND \<Rightarrow> DWORD \<Rightarrow> HMONITOR"
  GetMonitorInfoW :: "HMONITOR \<Rightarrow> RECT option"
  GetDeviceCaps_LOGPIXELSX :: "32 word"
  GetSystemMetrics :: "UINT \<Rightarrow> 32 word"
  GetAsyncKeyState :: "UINT \<Rightarrow> WORD"
  GetMessagePos :: DWORD
  ScreenToClient :: "HWND \<Rightarrow> POINT \<Rightarrow> POINT"
  FindWindowW_Shell_TrayWnd :: HWND
  SHAppBarMessage_GETSTATE :: UINT
  SHAppBarMessage_GETAUTOHIDEBAREX :: "UINT \<Rightarrow> RECT \<Rightarrow> HWND"
  SHAppBarMessage_GETTASKBARPOS :: "HWND \<Rightarrow> UINT option"
  DefWindowProcW :: "HWND \<Rightarrow> UINT \<Rightarrow> WPARAM \<Rightarrow> LPARAM \<Rightarrow> LRESULT"
  DefWindowProcW_rect :: "HWND \<Rightarrow> WPARAM \<Rightarrow> RECT \<Rightarrow> RECT"
  CallWindowProcW :: "WNDPROC \<Rightarrow> HWND \<Rightarrow> UINT \<Rightarrow> WPARAM \<Rightarrow> LPARAM \<Rightarrow> LRESULT"
  QHighDpi_fromNativeLocalPosition :: "POINT \<Rightarrow> ptr \<Rightarrow> POINT"
  QWindow_winId :: "ptr \<Rightarrow> WId"
  isInSystemButtons :: "POINT \<Rightarrow> bool"
  operator_new :: ptr

text \<open>The calls with an effect outside the program, in the order they are made.\<close>

datatype os_call =
    Call_PostMessageW HWND UINT WPARAM LPARAM
  | Call_TrackMouseEvent DWORD HWND DWORD
  | Call_resetQtGrabbedControl
  | Call_DefWindowProcW HWND UINT WPARAM LPARAM
  | Call_CallWindowProcW WNDPROC HWND UINT WPARAM LPARAM

text \<open>What the source raises or runs into instead of returning.\<close>

datatype error = bad_optional_access | null_dereference

section \<open>Geometry and interop utilities (win32windowcontext.cpp)\<close>

definition kAutoHideTaskBarThickness :: "8 word" where
  "kAutoHideTaskBarThickness = 2"

definition zero_RECT :: RECT where
  "zero_RECT = \<lparr>left_edge = 0, top_edge = 0, right_edge = 0, bottom_edge = 0\<rparr>"

definition getDpiForWindow :: "os_env \<Rightarrow> HWND \<Rightarrow> 32 word" where
  "getDpiForWindow os hwnd =
     (if hwnd = 0 then USER_DEFAULT_SCREEN_DPI
      else case pGetDpiForWindow (apis os) of
        Some f \<Rightarrow> f hwnd
      | None \<Rightarrow>
         (case pGetDpiForMonitor (apis os) of
            Some g \<Rightarrow>
              (case g (MonitorFromWindow os hwnd MONITOR_DEFAULTTONEAREST) of
                 Some dpiX \<Rightarrow> dpiX
               | None \<Rightarrow> USER_DEFAULT_SCREEN_DPI)
          | None \<Rightarrow> GetDeviceCaps_LOGPIXELSX os))"

definition getResizeBorderThickness :: "os_env \<Rightarrow> HWND \<Rightarrow> 32 word" where
  "getResizeBorderThickness os hwnd =
     (if hwnd = 0 then 0
      else case pGetSystemMetricsForDpi (apis os) of
        Some f \<Rightarrow>
          (let dpi = getDpiForWindow os hwnd
           in f SM_CXSIZEFRAME dpi + f SM_CXPADDEDBORDER dpi)
      | None \<Rightarrow> GetSystemMetrics os SM_CXSIZEFRAME + GetSystemMetrics os SM_CXPADDEDBORDER)"

text \<open>Of \<open>MONITORINFOEXW\<close> only \<open>rcMonitor\<close> is read; the optional holds that rectangle.\<close>

definition getMonitorForWindow :: "os_env \<Rightarrow> HWND \<Rightarrow> RECT option" where
  "getMonitorForWindow os hwnd =
     (if hwnd = 0 then None
      else Some (case GetMonitorInfoW os (MonitorFromWindow os hwnd MONITOR_DEFAULTTONEAREST) of
                   Some rcMonitor \<Rightarrow> rcMonitor
                 | None \<Rightarrow> zero_RECT))"

definition isFullScreen :: "os_env \<Rightarrow> HWND \<Rightarrow> bool" where
  "isFullScreen os hwnd =
     (if hwnd = 0 then False
      else let windowRect = (case GetWindowRect os hwnd of Some r \<Rightarrow> r | None \<Rightarrow> zero_RECT)
           in windowRect = (case getMonitorForWindow os hwnd of Some mi \<Rightarrow> mi | None \<Rightarrow> zero_RECT))"

definition fromNativeLocalPosition :: "os_env \<Rightarrow> ptr \<Rightarrow> POINT \<Rightarrow> POINT" where
  "fromNativeLocalPosition os window point =
     (if window = 0 then point else QHighDpi_fromNativeLocalPosition os point window)"

definition isValidWindow :: "os_env \<Rightarrow> WId \<Rightarrow> bool \<Rightarrow> bool \<Rightarrow> bool" where
  "isValidWindow os windowId checkVisible checkTopLevel =
     (let hwnd = windowId in
      if \<not> IsWindow os hwnd then False
      else if GetWindowLongPtrW os hwnd GWL_STYLE AND WS_DISABLED \<noteq> 0 then False
      else if GetWindowLongPtrW os hwnd GWL_EXSTYLE AND WS_EX_TOOLWINDOW \<noteq> 0 then False
      else case GetWindowRect os hwnd of
        None \<Rightarrow> False
      | Some rect \<Rightarrow>
          if sint (right_edge rect) \<le> sint (left_edge rect)
             \<or> sint (bottom_edge rect) \<le> sint (top_edge rect) then False
          else if checkVisible \<and> \<not> IsWindowVisible os hwnd then False
          else if checkTopLevel \<and> GetAncestor os hwnd GA_ROOT \<noteq> hwnd then False
          else True)"
section \<open>AbstractWindowContext (abstractwindowcontext.cpp)\<close>

text \<open>
  Modelled from the spec: the enumeration \<open>CoreWindowAgent::SystemButton\<close> is declared in
  a header that is not part of the sources at hand; the spec lists the roles
  minimize, maximize, close, system-menu, help and unknown.
\<close>

datatype SystemButton = Unknown | SystemMenu | Help | Minimize | Maximize | Close

record AbstractWindowContext =
  m_windowHandle :: ptr
  m_delegate :: ptr
  m_hitTestVisibleItems :: "ptr set"
  m_hitTestVisibleRects :: "RECT list"
  m_systemButtons :: "SystemButton \<Rightarrow> ptr"
  m_titleBar :: ptr

text \<open>
  \<open>Q_ASSERT\<close> is compiled out in release builds; the functions are modelled as a
  release build runs them, where the explicit null checks that follow each assertion
  decide. A member function returns its \<open>bool\<close> together with the updated object.
\<close>

definition setupWindow ::
  "ptr \<Rightarrow> 'a AbstractWindowContext_scheme \<Rightarrow> 'a AbstractWindowContext_scheme" where
  "setupWindow window c = c\<lparr>m_windowHandle := window\<rparr>"

definition setHitTestVisible ::
  "ptr \<Rightarrow> bool \<Rightarrow> 'a AbstractWindowContext_scheme \<Rightarrow> bool \<times> 'a AbstractWindowContext_scheme" where
  "setHitTestVisible obj visible c =
     (if obj = 0 then (False, c)
      else if visible then (True, c\<lparr>m_hitTestVisibleItems := insert obj (m_hitTestVisibleItems c)\<rparr>)
      else (True, c\<lparr>m_hitTestVisibleItems := m_hitTestVisibleItems c - {obj}\<rparr>))"

definition setSystemButton ::
  "SystemButton \<Rightarrow> ptr \<Rightarrow> 'a AbstractWindowContext_scheme \<Rightarrow> bool \<times> 'a AbstractWindowContext_scheme" where
  "setSystemButton button obj c =
     (if obj = 0 \<or> button = Unknown then (False, c)
      else if m_systemButtons c button = obj then (False, c)
      else (True, c\<lparr>m_systemButtons := (m_systemButtons c)(button := obj)\<rparr>))"

definition setTitleBar ::
  "ptr \<Rightarrow> 'a AbstractWindowContext_scheme \<Rightarrow> bool \<times> 'a AbstractWindowContext_scheme" where
  "setTitleBar item c =
     (if item = 0 then (False, c)
      else if m_titleBar c = item then (False, c)
      else (True, c\<lparr>m_titleBar := item\<rparr>))"


section \<open>The contexts\<close>

datatype WindowPart = Outside | ClientArea | ChromeButton | ResizeBorder | FixedBorder | TitleBar

record Win32WindowContext = AbstractWindowContext +
  windowId :: WId
  lastHitTestResult :: WindowPart
  mouseLeaveBlocked :: bool
  centered :: bool

section \<open>Emulation of client-area messages\<close>

definition kMessageTag :: WPARAM where
  "kMessageTag = 0x97CCEA99"

definition isTaggedMessage :: "WPARAM \<Rightarrow> bool" where
  "isTaggedMessage wParam \<longleftrightarrow> wParam = kMessageTag"

definition getKeyState :: "os_env \<Rightarrow> 64 word" where
  "getKeyState os =
     (let get = (\<lambda>virtualKey. sint (GetAsyncKeyState os virtualKey) < 0);
          buttonSwapped = (GetSystemMetrics os SM_SWAPBUTTON \<noteq> 0)
      in (if get VK_LBUTTON then ucast (if buttonSwapped then MK_RBUTTON else MK_LBUTTON) else 0)
         OR (if get VK_RBUTTON then ucast (if buttonSwapped then MK_LBUTTON else MK_RBUTTON) else 0)
         OR (if get VK_SHIFT then ucast MK_SHIFT else 0)
         OR (if get VK_CONTROL then ucast MK_CONTROL else 0)
         OR (if get VK_MBUTTON then ucast MK_MBUTTON else 0)
         OR (if get VK_XBUTTON1 then ucast MK_XBUTTON1 else 0)
         OR (if get VK_XBUTTON2 then ucast MK_XBUTTON2 else 0))"

text \<open>
  The \<open>switch\<close> at the end of \<open>emulateClientAreaMessage\<close>: the client-area message
  posted for \<open>myMsg\<close>, if any.
\<close>

definition clientAreaMessage :: "UINT \<Rightarrow> UINT option" where
  "clientAreaMessage myMsg =
     (if myMsg = WM_NCHITTEST \<or> myMsg = WM_NCMOUSEMOVE then Some WM_MOUSEMOVE
      else if myMsg = WM_NCLBUTTONDOWN then Some WM_LBUTTONDOWN
      else if myMsg = WM_NCLBUTTONUP then Some WM_LBUTTONUP
      else if myMsg = WM_NCLBUTTONDBLCLK then Some WM_LBUTTONDBLCLK
      else if myMsg = WM_NCRBUTTONDOWN then Some WM_RBUTTONDOWN
      else if myMsg = WM_NCRBUTTONUP then Some WM_RBUTTONUP
      else if myMsg = WM_NCRBUTTONDBLCLK then Some WM_RBUTTONDBLCLK
      else if myMsg = WM_NCMBUTTONDOWN then Some WM_MBUTTONDOWN
      else if myMsg = WM_NCMBUTTONUP then Some WM_MBUTTONUP
      else if myMsg = WM_NCMBUTTONDBLCLK then Some WM_MBUTTONDBLCLK
      else if myMsg = WM_NCXBUTTONDOWN then Some WM_XBUTTONDOWN
      else if myMsg = WM_NCXBUTTONUP then Some WM_XBUTTONUP
      else if myMsg = WM_NCXBUTTONDBLCLK then Some WM_XBUTTONDBLCLK
      else if myMsg = WM_NCMOUSEHOVER then Some WM_MOUSEHOVER
      else if myMsg = WM_NCMOUSELEAVE then Some WM_MOUSELEAVE
      else None)"

text \<open>
  \<open>myMsg\<close> is an \<open>int\<close>, so its comparisons with the X-button range are signed.
  The message is posted (\<open>SEND_MESSAGE\<close> is \<open>PostMessageW\<close>).
\<close>

definition emulateClientAreaMessage ::
  "os_env \<Rightarrow> HWND \<Rightarrow> UINT \<Rightarrow> WPARAM \<Rightarrow> LPARAM \<Rightarrow> UINT option \<Rightarrow> os_call list" where
  "emulateClientAreaMessage os hWnd message wParam lParam overrideMessage =
     (let myMsg = (case overrideMessage of Some m \<Rightarrow> m | None \<Rightarrow> message);
          wParamNew =
            (if myMsg = WM_NCMOUSELEAVE then kMessageTag
             else let keyState = getKeyState os
                  in if sint WM_NCXBUTTONDOWN \<le> sint myMsg \<and> sint myMsg \<le> sint WM_NCXBUTTONDBLCLK
                     then MAKEWPARAM keyState (ucast (GET_XBUTTON_WPARAM wParam))
                     else keyState);
          lParamNew =
            (if myMsg = WM_NCMOUSELEAVE then 0
             else let screenPos = \<lparr>x_coord = GET_X_LPARAM lParam, y_coord = GET_Y_LPARAM lParam\<rparr>;
                      clientPos = ScreenToClient os hWnd screenPos
                  in MAKELPARAM (scast (x_coord clientPos)) (scast (y_coord clientPos)))
      in case clientAreaMessage myMsg of
           Some m \<Rightarrow> [Call_PostMessageW hWnd m wParamNew lParamNew]
         | None \<Rightarrow> [])"

definition requestForMouseLeaveMessage :: "HWND \<Rightarrow> bool \<Rightarrow> os_call list" where
  "requestForMouseLeaveMessage hWnd nonClient =
     [Call_TrackMouseEvent (if nonClient then TME_LEAVE OR TME_NONCLIENT else TME_LEAVE)
        hWnd HOVER_DEFAULT]"

section \<open>The snap-layout handler\<close>

text \<open>The \<open>case\<close> labels that share the non-client mouse branch of \<open>snapLayoutHandler\<close>.\<close>

definition nonClientMouseMessages :: "UINT list" where
  "nonClientMouseMessages =
     [WM_NCMOUSEMOVE, WM_NCLBUTTONDOWN, WM_NCLBUTTONUP, WM_NCLBUTTONDBLCLK,
      WM_NCRBUTTONDOWN, WM_NCRBUTTONUP, WM_NCRBUTTONDBLCLK,
      WM_NCMBUTTONDOWN, WM_NCMBUTTONUP, WM_NCMBUTTONDBLCLK,
      WM_NCXBUTTONDOWN, WM_NCXBUTTONUP, WM_NCXBUTTONDBLCLK, WM_NCMOUSEHOVER]"

text \<open>
  A handler returns whether it handled the message, the value behind \<open>result\<close>, the
  context as it leaves it and the calls it made. \<open>result\<close> is passed in with the value
  it has on entry.
\<close>

definition snapLayoutHandler ::
  "os_env \<Rightarrow> Win32WindowContext \<Rightarrow> HWND \<Rightarrow> UINT \<Rightarrow> WPARAM \<Rightarrow> LPARAM \<Rightarrow> LRESULT
     \<Rightarrow> bool \<times> LRESULT \<times> Win32WindowContext \<times> os_call list" where
  "snapLayoutHandler os c hWnd message wParam lParam result =
     (if message = WM_MOUSELEAVE then
        (if \<not> isTaggedMessage wParam
            \<and> (let dwScreenPos = GetMessagePos os;
                    qtScenePos = fromNativeLocalPosition os (m_windowHandle c)
                      \<lparr>x_coord = GET_X_LPARAM (ucast dwScreenPos),
                       y_coord = GET_Y_LPARAM (ucast dwScreenPos)\<rparr>
                in isInSystemButtons os qtScenePos)
         then (True, 0, c\<lparr>mouseLeaveBlocked := True\<rparr>, [])
         else (False, result, c\<lparr>mouseLeaveBlocked := False\<rparr>, []))
      else if message = WM_MOUSEMOVE then
        (if lastHitTestResult c \<noteq> ChromeButton \<and> mouseLeaveBlocked c
         then (False, result, c\<lparr>mouseLeaveBlocked := False\<rparr>,
               requestForMouseLeaveMessage hWnd False)
         else (False, result, c, []))
      else if message \<in> set nonClientMouseMessages then
        (let currentWindowPart = lastHitTestResult c;
             calls1 =
               (if message = WM_NCMOUSEMOVE \<and> currentWindowPart \<noteq> ChromeButton
                then Call_resetQtGrabbedControl #
                     (if mouseLeaveBlocked c
                      then emulateClientAreaMessage os hWnd message wParam lParam
                             (Some WM_NCMOUSELEAVE)
                      else [])
                else []);
             c1 = (if message = WM_NCMOUSEMOVE then c\<lparr>lastHitTestResult := Outside\<rparr> else c)
         in if currentWindowPart = ChromeButton
            then (True,
                  (if message = WM_NCMOUSEMOVE
                   then DefWindowProcW os hWnd WM_NCMOUSEMOVE wParam lParam
                   else if WM_NCXBUTTONDOWN \<le> message \<and> message \<le> WM_NCXBUTTONDBLCLK
                        then 1 else 0),
                  c1,
                  calls1 @ emulateClientAreaMessage os hWnd message wParam lParam None
                    @ (if message = WM_NCMOUSEMOVE
                       then [Call_DefWindowProcW hWnd WM_NCMOUSEMOVE wParam lParam] else []))
            else (False, result, c1, calls1))
      else if message = WM_NCMOUSELEAVE then
        (let currentWindowPart = lastHitTestResult c
         in if currentWindowPart = ChromeButton
            then (if mouseLeaveBlocked c
                  then (False, result, c\<lparr>mouseLeaveBlocked := False\<rparr>,
                        requestForMouseLeaveMessage hWnd False)
                  else (False, result, c, []))
            else (False, result, c,
                  (if mouseLeaveBlocked c
                   then emulateClientAreaMessage os hWnd message wParam lParam
                          (Some WM_NCMOUSELEAVE)
                   else [])
                  @ (if currentWindowPart = Outside then [Call_resetQtGrabbedControl] else [])))
      else (False, result, c, []))"

section \<open>The frame-size handler\<close>

text \<open>
  \<open>customWindowHandler\<close> answers \<open>WM_NCCALCSIZE\<close> in four steps, modelled one by one.
  \<open>clientRect\<close> is the rectangle behind \<open>lParam\<close> (the \<open>RECT\<close> itself, or
  \<open>rgrc[0]\<close> of the \<open>NCCALCSIZE_PARAMS\<close>), changed in place by the source and
  returned by the model.

  First step, on Windows 10 and later: the default procedure sizes the frame. A result
  other than \<open>HTERROR\<close> and \<open>HTNOWHERE\<close> ends the handler at once (\<open>Inl\<close>, with that
  result); otherwise the top edge is put back.
\<close>

definition applyDefaultFrame ::
  "os_env \<Rightarrow> HWND \<Rightarrow> WPARAM \<Rightarrow> LPARAM \<Rightarrow> RECT \<Rightarrow> (LRESULT \<times> RECT) + RECT" where
  "applyDefaultFrame os hWnd wParam lParam clientRect =
     (if isWin10OrGreater os then
        (let originalTop = top_edge clientRect;
             hitTestResult = DefWindowProcW os hWnd WM_NCCALCSIZE wParam lParam;
             clientRect1 = DefWindowProcW_rect os hWnd wParam clientRect
         in if hitTestResult \<noteq> HTERROR \<and> hitTestResult \<noteq> HTNOWHERE
            then Inl (hitTestResult, clientRect1)
            else Inr (clientRect1\<lparr>top_edge := originalTop\<rparr>))
      else Inr clientRect)"

text \<open>Second step: a maximized window that is not full screen loses its resize border.\<close>

definition applyMaximizedFrame :: "os_env \<Rightarrow> HWND \<Rightarrow> RECT \<Rightarrow> RECT" where
  "applyMaximizedFrame os hWnd clientRect =
     (let max = IsMaximized os hWnd; full = isFullScreen os hWnd
      in if max \<and> \<not> full then
           (let frameSize = getResizeBorderThickness os hWnd;
                clientRect1 = clientRect\<lparr>top_edge := top_edge clientRect + frameSize\<rparr>
            in if \<not> isWin10OrGreater os
               then clientRect1\<lparr>bottom_edge := bottom_edge clientRect1 - frameSize,
                                left_edge := left_edge clientRect1 + frameSize,
                                right_edge := right_edge clientRect1 - frameSize\<rparr>
               else clientRect1)
         else clientRect)"

text \<open>
  Third step: the edges on which an auto-hide task bar is found, as
  \<open>(top, bottom, left, right)\<close>. \<open>monitorInfo.value()\<close> throws when the optional is
  empty.
\<close>

definition autoHideTaskbarEdges ::
  "os_env \<Rightarrow> HWND \<Rightarrow> error + (bool \<times> bool \<times> bool \<times> bool)" where
  "autoHideTaskbarEdges os hWnd =
     (if isWin8Point1OrGreater os then
        (case getMonitorForWindow os hWnd of
           None \<Rightarrow> Inl bad_optional_access
         | Some monitorRect \<Rightarrow>
            (let hasAutohideTaskbar =
                   (\<lambda>edge. SHAppBarMessage_GETAUTOHIDEBAREX os edge monitorRect \<noteq> 0)
             in Inr (hasAutohideTaskbar ABE_TOP, hasAutohideTaskbar ABE_BOTTOM,
                     hasAutohideTaskbar ABE_LEFT, hasAutohideTaskbar ABE_RIGHT)))
      else
        (let abd2_hWnd = FindWindowW_Shell_TrayWnd os;
             windowMonitor = MonitorFromWindow os hWnd MONITOR_DEFAULTTONEAREST;
             taskbarMonitor = MonitorFromWindow os abd2_hWnd MONITOR_DEFAULTTOPRIMARY;
             edge = (if taskbarMonitor = windowMonitor
                     then (case SHAppBarMessage_GETTASKBARPOS os abd2_hWnd of
                             Some uEdge \<Rightarrow> uEdge
                           | None \<Rightarrow> 0)
                     else - 1)
         in Inr (edge = ABE_TOP, edge = ABE_BOTTOM, edge = ABE_LEFT, edge = ABE_RIGHT)))"

definition shrinkForTaskbar :: "bool \<times> bool \<times> bool \<times> bool \<Rightarrow> RECT \<Rightarrow> RECT" where
  "shrinkForTaskbar edges clientRect =
     (case edges of (atTop, atBottom, atLeft, atRight) \<Rightarrow>
        if atTop then clientRect\<lparr>top_edge := top_edge clientRect + ucast kAutoHideTaskBarThickness\<rparr>
        else if atBottom
          then clientRect\<lparr>bottom_edge := bottom_edge clientRect - ucast kAutoHideTaskBarThickness\<rparr>
        else if atLeft
          then clientRect\<lparr>left_edge := left_edge clientRect + ucast kAutoHideTaskBarThickness\<rparr>
        else if atRight
          then clientRect\<lparr>right_edge := right_edge clientRect - ucast kAutoHideTaskBarThickness\<rparr>
        else clientRect)"

definition applyAutoHideTaskbar :: "os_env \<Rightarrow> HWND \<Rightarrow> RECT \<Rightarrow> error + RECT" where
  "applyAutoHideTaskbar os hWnd clientRect =
     (let max = IsMaximized os hWnd; full = isFullScreen os hWnd
      in if max \<or> full then
           (let taskbarState = SHAppBarMessage_GETSTATE os
            in if taskbarState AND ABS_AUTOHIDE \<noteq> 0
               then (case autoHideTaskbarEdges os hWnd of
                       Inl e \<Rightarrow> Inl e
                     | Inr edges \<Rightarrow> Inr (shrinkForTaskbar edges clientRect))
               else Inr clientRect)
         else Inr clientRect)"

text \<open>
  The handler: whether it handled the message, the value behind \<open>result\<close>, the client
  rectangle and the calls made, or the exception thrown.
\<close>

definition customWindowHandler ::
  "os_env \<Rightarrow> HWND \<Rightarrow> UINT \<Rightarrow> WPARAM \<Rightarrow> LPARAM \<Rightarrow> RECT \<Rightarrow> LRESULT
     \<Rightarrow> error + (bool \<times> LRESULT \<times> RECT \<times> os_call list)" where
  "customWindowHandler os hWnd message wParam lParam clientRect result =
     (if message = WM_NCCALCSIZE then
        (let calls = (if isWin10OrGreater os
                      then [Call_DefWindowProcW hWnd WM_NCCALCSIZE wParam lParam] else [])
         in case applyDefaultFrame os hWnd wParam lParam clientRect of
              Inl (hitTestResult, clientRect1) \<Rightarrow> Inr (True, hitTestResult, clientRect1, calls)
            | Inr clientRect1 \<Rightarrow>
               (case applyAutoHideTaskbar os hWnd (applyMaximizedFrame os hWnd clientRect1) of
                  Inl e \<Rightarrow> Inl e
                | Inr clientRect3 \<Rightarrow>
                    Inr (True, (if wParam = 0 then 0 else WVR_REDRAW), clientRect3, calls)))
      else Inr (False, result, clientRect, []))"

section \<open>The message handler of a context\<close>

record handler_outcome =
  out_handled :: bool
  out_result :: LRESULT
  out_ctx :: Win32WindowContext
  out_rect :: RECT
  out_calls :: "os_call list"

definition teardownMessages :: "UINT list" where
  "teardownMessages =
     [WM_CLOSE, WM_DESTROY, WM_NCDESTROY, WM_UAHDESTROYWINDOW, WM_UNREGISTER_WINDOW_SERVICES]"

definition windowProc ::
  "os_env \<Rightarrow> Win32WindowContext \<Rightarrow> HWND \<Rightarrow> UINT \<Rightarrow> WPARAM \<Rightarrow> LPARAM \<Rightarrow> RECT \<Rightarrow> LRESULT
     \<Rightarrow> error + handler_outcome" where
  "windowProc os c hWnd message wParam lParam clientRect result =
     (let result0 = 0 in
      if message \<in> set teardownMessages
      then Inr \<lparr>out_handled = False, out_result = result0, out_ctx = c,
                out_rect = clientRect, out_calls = []\<rparr>
      else if \<not> isValidWindow os (windowId c) False True
      then Inr \<lparr>out_handled = False, out_result = result0, out_ctx = c,
                out_rect = clientRect, out_calls = []\<rparr>
      else case snapLayoutHandler os c hWnd message wParam lParam result0 of
        (handled1, result1, c1, calls1) \<Rightarrow>
          if handled1
          then Inr \<lparr>out_handled = True, out_result = result1, out_ctx = c1,
                    out_rect = clientRect, out_calls = calls1\<rparr>
          else (case customWindowHandler os hWnd message wParam lParam clientRect result1 of
                  Inl e \<Rightarrow> Inl e
                | Inr (handled2, result2, clientRect2, calls2) \<Rightarrow>
                    Inr \<lparr>out_handled = handled2, out_result = result2, out_ctx = c1,
                         out_rect = clientRect2, out_calls = calls1 @ calls2\<rparr>))"

text \<open>A run of messages through one context; an exception ends the run.\<close>

record message_event =
  ev_os :: os_env
  ev_hWnd :: HWND
  ev_message :: UINT
  ev_wParam :: WPARAM
  ev_lParam :: LPARAM
  ev_rect :: RECT

fun run_messages :: "message_event list \<Rightarrow> Win32WindowContext \<Rightarrow> error + Win32WindowContext" where
  "run_messages [] c = Inr c"
| "run_messages (e # es) c =
     (case windowProc (ev_os e) c (ev_hWnd e) (ev_message e) (ev_wParam e) (ev_lParam e)
             (ev_rect e) 0 of
        Inl err \<Rightarrow> Inl err
      | Inr out \<Rightarrow> run_messages es (out_ctx out))"

section \<open>The window-procedure hook registry\<close>

text \<open>
  The state of the process that the hook reads and writes: the globals of
  win32windowcontext.cpp (\<open>g_wndProcHash\<close>, \<open>g_qtWindowProc\<close> and the static members
  of \<open>WindowsNativeEventFilter\<close>), the context objects behind the pointers of the hash,
  the native event filters installed in the application, and the window procedure that
  the operating system holds for each existing window.

  \<open>g_wndProcHash\<close> is a \<open>QHash\<close>, kept as a list of pairs with one pair for a key.
  \<open>instance\<close> is \<open>None\<close> for the null pointer and \<open>Some a\<close> for the filter object
  that \<open>new\<close> returned at address \<open>a\<close>.
\<close>

record process_state =
  g_wndProcHash :: "(HWND \<times> ptr) list"
  g_qtWindowProc :: WNDPROC
  lastMessageHandled :: bool
  lastMessageResult :: LRESULT
  instance_ptr :: "ptr option"
  objects :: "ptr \<Rightarrow> Win32WindowContext"
  nativeEventFilters :: "ptr list"
  window_procedures :: "HWND \<rightharpoonup> WNDPROC"

text \<open>\<open>QHash::value\<close>, \<open>insert\<close> and \<open>remove\<close>: a missing key reads as the null pointer.\<close>

definition QHash_value :: "(HWND \<times> ptr) list \<Rightarrow> HWND \<Rightarrow> ptr" where
  "QHash_value h k = (case map_of h k of Some v \<Rightarrow> v | None \<Rightarrow> 0)"

definition QHash_insert :: "HWND \<Rightarrow> ptr \<Rightarrow> (HWND \<times> ptr) list \<Rightarrow> (HWND \<times> ptr) list" where
  "QHash_insert k v h = AList.update k v h"

definition QHash_remove :: "HWND \<Rightarrow> (HWND \<times> ptr) list \<Rightarrow> (HWND \<times> ptr) list" where
  "QHash_remove k h = AList.delete k h"

text \<open>
  \<open>GetWindowLongPtrW(hWnd, GWLP_WNDPROC)\<close> answers null and
  \<open>SetWindowLongPtrW(hWnd, GWLP_WNDPROC, p)\<close> changes nothing for a handle that is not
  a window.
\<close>

definition GetWindowLongPtrW_WNDPROC :: "process_state \<Rightarrow> HWND \<Rightarrow> WNDPROC" where
  "GetWindowLongPtrW_WNDPROC s hWnd =
     (case window_procedures s hWnd of Some p \<Rightarrow> p | None \<Rightarrow> null_WNDPROC)"

definition SetWindowLongPtrW_WNDPROC :: "HWND \<Rightarrow> WNDPROC \<Rightarrow> process_state \<Rightarrow> process_state" where
  "SetWindowLongPtrW_WNDPROC hWnd p s =
     (case window_procedures s hWnd of
        Some q \<Rightarrow> s\<lparr>window_procedures := (window_procedures s)(hWnd \<mapsto> p)\<rparr>
      | None \<Rightarrow> s)"

text \<open>
  \<open>WindowsNativeEventFilter\<close>. The application keeps an installed filter once, in front;
  removing the null pointer removes nothing.
\<close>

definition nativeEventFilter ::
  "process_state \<Rightarrow> LRESULT option \<Rightarrow> bool \<times> LRESULT option" where
  "nativeEventFilter s result =
     (case result of
        None \<Rightarrow> (False, None)
      | Some r \<Rightarrow>
          if lastMessageHandled s then (True, Some (lastMessageResult s))
          else (False, Some r))"

definition install :: "ptr \<Rightarrow> process_state \<Rightarrow> process_state" where
  "install a s =
     s\<lparr>instance_ptr := Some a, nativeEventFilters := a # removeAll a (nativeEventFilters s)\<rparr>"

definition uninstall :: "process_state \<Rightarrow> process_state" where
  "uninstall s =
     s\<lparr>nativeEventFilters :=
         (case instance_ptr s of
            Some a \<Rightarrow> removeAll a (nativeEventFilters s)
          | None \<Rightarrow> nativeEventFilters s),
       instance_ptr := None\<rparr>"

text \<open>
  The hook. It returns the result handed back to the operating system, the state of the
  process, the client rectangle and the calls made. What a procedure that the message is
  forwarded to does on its own is not followed; the forwarding is the last call.
\<close>

definition QWKHookedWndProc ::
  "os_env \<Rightarrow> process_state \<Rightarrow> HWND \<Rightarrow> UINT \<Rightarrow> WPARAM \<Rightarrow> LPARAM \<Rightarrow> RECT
     \<Rightarrow> error + (LRESULT \<times> process_state \<times> RECT \<times> os_call list)" where
  "QWKHookedWndProc os s hWnd message wParam lParam clientRect =
     (if hWnd = 0 then Inr (0, s, clientRect, [])
      else let ctx = QHash_value (g_wndProcHash s) hWnd
           in if ctx = 0
              then Inr (DefWindowProcW os hWnd message wParam lParam, s, clientRect,
                        [Call_DefWindowProcW hWnd message wParam lParam])
              else (case windowProc os (objects s ctx) hWnd message wParam lParam clientRect
                           (lastMessageResult s) of
                      Inl e \<Rightarrow> Inl e
                    | Inr out \<Rightarrow>
                        Inr (CallWindowProcW os (g_qtWindowProc s) hWnd message wParam lParam,
                             s\<lparr>lastMessageHandled := out_handled out,
                               lastMessageResult := out_result out,
                               objects := (objects s)(ctx := out_ctx out)\<rparr>,
                             out_rect out,
                             out_calls out
                               @ [Call_CallWindowProcW (g_qtWindowProc s) hWnd message
                                    wParam lParam])))"

text \<open>
  \<open>Win32WindowContext::setup\<close> for the context at address \<open>this\<close>, and its destructor.
  \<open>m_windowHandle->winId()\<close> dereferences the window pointer.
\<close>

definition Win32WindowContext_setup :: "os_env \<Rightarrow> ptr \<Rightarrow> process_state \<Rightarrow> error + (bool \<times> process_state)" where
  "Win32WindowContext_setup os this s =
     (if m_windowHandle (objects s this) = 0 then Inl null_dereference
      else
        (let winId = QWindow_winId os (m_windowHandle (objects s this));
             hWnd = winId;
             s1 = (if g_qtWindowProc s = null_WNDPROC
                   then s\<lparr>g_qtWindowProc := GetWindowLongPtrW_WNDPROC s hWnd\<rparr> else s);
             s2 = SetWindowLongPtrW_WNDPROC hWnd QWKHookedWndProc_address s1;
             s3 = (if instance_ptr s2 = None then install (operator_new os) s2 else s2);
             s4 = s3\<lparr>objects := (objects s3)(this := (objects s3 this)\<lparr>windowId := winId\<rparr>)\<rparr>;
             s5 = s4\<lparr>g_wndProcHash := QHash_insert hWnd this (g_wndProcHash s4)\<rparr>
         in Inr (True, s5)))"

definition Win32WindowContext_destroy :: "ptr \<Rightarrow> process_state \<Rightarrow> process_state" where
  "Win32WindowContext_destroy this s =
     (let hWnd = windowId (objects s this)
      in if hWnd \<noteq> 0
         then (let s1 = s\<lparr>g_wndProcHash := QHash_remove hWnd (g_wndProcHash s)\<rparr>
               in if g_wndProcHash s1 = [] then uninstall s1 else s1)
         else s)"

section \<open>Measures used in the statements\<close>

text \<open>The number of edges on which two rectangles differ.\<close>

definition edges_changed :: "RECT \<Rightarrow> RECT \<Rightarrow> nat" where
  "edges_changed r r' =
     (if left_edge r' \<noteq> left_edge r then 1 else 0)
     + (if top_edge r' \<noteq> top_edge r then 1 else 0)
     + (if right_edge r' \<noteq> right_edge r then 1 else 0)
     + (if bottom_edge r' \<noteq> bottom_edge r then 1 else 0)"

text \<open>
  The \<open>lParam\<close> of an emulated message: the position of the non-client message,
  translated from screen to client coordinates.
\<close>

definition client_lParam :: "os_env \<Rightarrow> HWND \<Rightarrow> LPARAM \<Rightarrow> LPARAM" where
  "client_lParam os hWnd lParam =
     (let clientPos = ScreenToClient os hWnd
            \<lparr>x_coord = GET_X_LPARAM lParam, y_coord = GET_Y_LPARAM lParam\<rparr>
      in MAKELPARAM (scast (x_coord clientPos)) (scast (y_coord clientPos)))"

section \<open>Concrete inputs\<close>

text \<open>
  A Windows 10 desktop at 96 DPI with one 1920 by 1080 monitor. The window is maximized:
  it reaches 8 pixels past the work area of 1920 by 1040 on every side. The resize border
  is 4 + 4 pixels thick. The default procedure answers 0 and takes the standard frame
  off the proposed rectangle, 31 pixels at the top and 8 on the other sides. No key
  is down, no task bar hides itself, and every point lies over a system button.
\<close>

definition maximized_rect :: RECT where
  "maximized_rect = \<lparr>left_edge = - 8, top_edge = - 8, right_edge = 1928, bottom_edge = 1048\<rparr>"

definition monitor_rect :: RECT where
  "monitor_rect = \<lparr>left_edge = 0, top_edge = 0, right_edge = 1920, bottom_edge = 1080\<rparr>"

definition default_frame :: "RECT \<Rightarrow> RECT" where
  "default_frame r =
     \<lparr>left_edge = left_edge r + 8, top_edge = top_edge r + 31,
      right_edge = right_edge r - 8, bottom_edge = bottom_edge r - 8\<rparr>"

definition desktop_apis :: DynamicApis where
  "desktop_apis =
     \<lparr>pGetDpiForWindow = Some (\<lambda>hwnd. 96),
      pGetSystemMetricsForDpi = Some (\<lambda>index dpi. if index = 32 \<or> index = 92 then 4 else 0),
      pGetDpiForMonitor = None\<rparr>"

definition desktop :: os_env where
  "desktop =
     \<lparr>apis = desktop_apis,
      isWin8Point1OrGreater = True,
      isWin10OrGreater = True,
      IsWindow = (\<lambda>hwnd. hwnd \<noteq> 0),
      GetWindowLongPtrW = (\<lambda>hwnd index. 0),
      GetWindowRect = (\<lambda>hwnd. Some maximized_rect),
      IsWindowVisible = (\<lambda>hwnd. True),
      GetAncestor = (\<lambda>hwnd flags. hwnd),
      IsMaximized = (\<lambda>hwnd. True),
      MonitorFromWindow = (\<lambda>hwnd flags. 1),
      GetMonitorInfoW = (\<lambda>monitor. Some monitor_rect),
      GetDeviceCaps_LOGPIXELSX = 96,
      GetSystemMetrics = (\<lambda>index. 0),
      GetAsyncKeyState = (\<lambda>virtualKey. 0),
      GetMessagePos = 0,
      ScreenToClient = (\<lambda>hwnd point. point),
      FindWindowW_Shell_TrayWnd = 0x500,
      SHAppBarMessage_GETSTATE = 0,
      SHAppBarMessage_GETAUTOHIDEBAREX = (\<lambda>edge rc. 0),
      SHAppBarMessage_GETTASKBARPOS = (\<lambda>hwnd. Some 3),
      DefWindowProcW = (\<lambda>hwnd message wParam lParam. 0),
      DefWindowProcW_rect = (\<lambda>hwnd wParam. default_frame),
      CallWindowProcW = (\<lambda>p hwnd message wParam lParam. 0),
      QHighDpi_fromNativeLocalPosition = (\<lambda>point window. point),
      QWindow_winId = (\<lambda>window. 0x100),
      isInSystemButtons = (\<lambda>point. True),
      operator_new = 0x9000\<rparr>"

text \<open>The same desktop where the default procedure answers \<open>WVR_VALIDRECTS\<close> (0x400).\<close>

definition desktop_valid_rects :: os_env where
  "desktop_valid_rects = desktop\<lparr>DefWindowProcW := (\<lambda>hwnd message wParam lParam. 0x400)\<rparr>"

text \<open>The same desktop with a task bar that hides itself at the bottom edge.\<close>

definition desktop_autohide :: os_env where
  "desktop_autohide =
     desktop\<lparr>SHAppBarMessage_GETSTATE := 1,
       SHAppBarMessage_GETAUTOHIDEBAREX := (\<lambda>edge rc. if edge = 3 then 0x500 else 0)\<rparr>"

text \<open>
  That desktop again, where the default procedure answers \<open>WVR_VALIDRECTS\<close> (0x400).
\<close>

definition desktop_autohide_valid_rects :: os_env where
  "desktop_autohide_valid_rects =
     desktop_autohide\<lparr>DefWindowProcW := (\<lambda>hwnd message wParam lParam. 0x400)\<rparr>"

text \<open>The desktop with the window disabled: its style has \<open>WS_DISABLED\<close> set.\<close>

definition desktop_disabled :: os_env where
  "desktop_disabled =
     desktop\<lparr>GetWindowLongPtrW := (\<lambda>hwnd index. if index = - 16 then 0x08000000 else 0)\<rparr>"

text \<open>Windows 7: no dynamic entry point, a border of 4 + 4 pixels from the plain metrics.\<close>

definition desktop_win7 :: os_env where
  "desktop_win7 =
     desktop\<lparr>apis := \<lparr>pGetDpiForWindow = None, pGetSystemMetricsForDpi = None,
                         pGetDpiForMonitor = None\<rparr>,
       isWin8Point1OrGreater := False, isWin10OrGreater := False,
       GetSystemMetrics := (\<lambda>index. if index = 32 \<or> index = 92 then 4 else 0)\<rparr>"

definition fresh_context :: Win32WindowContext where
  "fresh_context =
     \<lparr>m_windowHandle = 0x1000, m_delegate = 0x2000, m_hitTestVisibleItems = {},
      m_hitTestVisibleRects = [], m_systemButtons = (\<lambda>button. 0), m_titleBar = 0,
      windowId = 0x100, lastHitTestResult = Outside, mouseLeaveBlocked = False,
      centered = False\<rparr>"

text \<open>The context while the pointer is over a chrome button.\<close>

definition hovering_context :: Win32WindowContext where
  "hovering_context = fresh_context\<lparr>lastHitTestResult := ChromeButton\<rparr>"

text \<open>The desktop with the left button and the shift key down.\<close>

definition desktop_keys_down :: os_env where
  "desktop_keys_down =
     desktop\<lparr>GetAsyncKeyState :=
       (\<lambda>virtualKey. if virtualKey = 0x01 \<or> virtualKey = 0x10 then 0x8000 else 0)\<rparr>"

text \<open>The context after a client-area leave has been suppressed, and two events.\<close>

definition suppressed_context :: Win32WindowContext where
  "suppressed_context = fresh_context\<lparr>mouseLeaveBlocked := True\<rparr>"

definition leave_event :: message_event where
  "leave_event = \<lparr>ev_os = desktop, ev_hWnd = 0x100, ev_message = WM_MOUSELEAVE, ev_wParam = 0,
     ev_lParam = 0, ev_rect = maximized_rect\<rparr>"

definition move_event :: message_event where
  "move_event = \<lparr>ev_os = desktop, ev_hWnd = 0x100, ev_message = WM_MOUSEMOVE, ev_wParam = 0,
     ev_lParam = 0x00640032, ev_rect = maximized_rect\<rparr>"

text \<open>A process with one hooked window, and a process before any hook.\<close>

definition hooked_state :: process_state where
  "hooked_state =
     \<lparr>g_wndProcHash = [(0x100, 0x7000)], g_qtWindowProc = other_WNDPROC 1,
      lastMessageHandled = False, lastMessageResult = 0x300, instance_ptr = Some 0x9000,
      objects = (\<lambda>p. fresh_context), nativeEventFilters = [0x9000],
      window_procedures = [0x100 \<mapsto> QWKHookedWndProc_address]\<rparr>"

definition unhooked_state :: process_state where
  "unhooked_state =
     \<lparr>g_wndProcHash = [], g_qtWindowProc = null_WNDPROC,
      lastMessageHandled = False, lastMessageResult = 0, instance_ptr = None,
      objects = (\<lambda>p. fresh_context\<lparr>windowId := 0\<rparr>), nativeEventFilters = [],
      window_procedures = [0x100 \<mapsto> other_WNDPROC 1]\<rparr>"

text \<open>
  The process after the context at 0x7000 has been set up on window 0x100 from
  \<open>unhooked_state\<close>, the process after that context has been destroyed, and the desktop
  at a later time, when \<open>new\<close> would return another address.
\<close>

definition attached_state :: process_state where
  "attached_state =
     \<lparr>g_wndProcHash = [(0x100, 0x7000)], g_qtWindowProc = other_WNDPROC 1,
      lastMessageHandled = False, lastMessageResult = 0, instance_ptr = Some 0x9000,
      objects = (\<lambda>p. fresh_context\<lparr>windowId := 0\<rparr>)(0x7000 := fresh_context),
      nativeEventFilters = [0x9000],
      window_procedures = [0x100 \<mapsto> QWKHookedWndProc_address]\<rparr>"

definition detached_state :: process_state where
  "detached_state =
     attached_state\<lparr>g_wndProcHash := [], instance_ptr := None, nativeEventFilters := []\<rparr>"

definition desktop_later :: os_env where
  "desktop_later = desktop\<lparr>operator_new := 0x9100\<rparr>"

definition registered_ctx :: AbstractWindowContext where
  "registered_ctx =
     \<lparr>m_windowHandle = 0x1000, m_delegate = 0x2000, m_hitTestVisibleItems = {},
      m_hitTestVisibleRects = [], m_systemButtons = (\<lambda>button. 0)(Close := 0x3000),
      m_titleBar = 0x4000\<rparr>"

section \<open>Registration of system buttons and of the title bar\<close>

text \<open>
  Claim C10. Registering, as a system button or as the title bar, a non-null object that
  is already the object assigned to that role returns \<open>false\<close> and leaves the context
  as it was; this is the very answer given to invalid input (a null object, or the role
  \<open>Unknown\<close>).
\<close>

theorem duplicate_registration_fails:
  "obj \<noteq> 0 \<Longrightarrow>
     (m_systemButtons c button = obj \<longrightarrow> setSystemButton button obj c = (False, c)) \<and>
     (m_titleBar c = obj \<longrightarrow> setTitleBar obj c = (False, c)) \<and>
     setSystemButton button 0 c = (False, c) \<and>
     setSystemButton Unknown obj c = (False, c) \<and>
     setTitleBar 0 c = (False, c)"
  by (simp add: setSystemButton_def setTitleBar_def)

theorem duplicate_registration_fails_witness:
  "(0x3000 :: ptr) \<noteq> 0 \<and> m_systemButtons registered_ctx Close = 0x3000 \<and>
   setSystemButton Close 0x3000 registered_ctx = (False, registered_ctx) \<and>
   (0x4000 :: ptr) \<noteq> 0 \<and> m_titleBar registered_ctx = 0x4000 \<and>
   setTitleBar 0x4000 registered_ctx = (False, registered_ctx)"
  using duplicate_registration_fails [of "0x3000" registered_ctx Close]
    duplicate_registration_fails [of "0x4000" registered_ctx Close]
  by (simp add: registered_ctx_def)

section \<open>Frame-size negotiation\<close>

lemma applyDefaultFrame_goes_on:
  "\<not> isWin10OrGreater os \<or> DefWindowProcW os hWnd WM_NCCALCSIZE wParam lParam = HTERROR
     \<or> DefWindowProcW os hWnd WM_NCCALCSIZE wParam lParam = HTNOWHERE \<Longrightarrow>
   applyDefaultFrame os hWnd wParam lParam clientRect =
     Inr (if isWin10OrGreater os
          then (DefWindowProcW_rect os hWnd wParam clientRect)\<lparr>top_edge := top_edge clientRect\<rparr>
          else clientRect)"
  by (auto simp: applyDefaultFrame_def Let_def)

lemma applyDefaultFrame_ends:
  "isWin10OrGreater os \<Longrightarrow> DefWindowProcW os hWnd WM_NCCALCSIZE wParam lParam \<noteq> HTERROR \<Longrightarrow>
   DefWindowProcW os hWnd WM_NCCALCSIZE wParam lParam \<noteq> HTNOWHERE \<Longrightarrow>
   applyDefaultFrame os hWnd wParam lParam clientRect =
     Inl (DefWindowProcW os hWnd WM_NCCALCSIZE wParam lParam,
          DefWindowProcW_rect os hWnd wParam clientRect)"
  by (simp add: applyDefaultFrame_def Let_def)

text \<open>With a window handle that is not null, nothing is thrown.\<close>

lemma customWindowHandler_returns:
  "hWnd \<noteq> 0 \<Longrightarrow>
   \<exists>h r rect' cs.
     customWindowHandler os hWnd message wParam lParam clientRect result = Inr (h, r, rect', cs)"
  by (auto simp: customWindowHandler_def applyAutoHideTaskbar_def autoHideTaskbarEdges_def
      getMonitorForWindow_def Let_def split: sum.splits option.splits prod.splits)

lemma shrinkForTaskbar_edges:
  "atTop \<or> atBottom \<or> atLeft \<or> atRight \<Longrightarrow>
   edges_changed r (shrinkForTaskbar (atTop, atBottom, atLeft, atRight) r) = 1"
  by (auto simp: shrinkForTaskbar_def edges_changed_def kAutoHideTaskBarThickness_def)

text \<open>
  Claim C1, as amended. Whenever the handler returns from a \<open>WM_NCCALCSIZE\<close> message it
  reports the message as handled. On Windows 10 and later, when the default procedure
  answers anything but \<open>HTERROR\<close> and \<open>HTNOWHERE\<close>, the result code is that answer,
  whatever it is; on every other path the result code is zero for \<open>wParam = FALSE\<close> and
  \<open>WVR_REDRAW\<close> for any other \<open>wParam\<close>.
\<close>

theorem nccalcsize_result:
  "customWindowHandler os hWnd WM_NCCALCSIZE wParam lParam clientRect result
     = Inr (handled, r, rect', cs) \<Longrightarrow>
   handled \<and>
   r = (if isWin10OrGreater os
           \<and> DefWindowProcW os hWnd WM_NCCALCSIZE wParam lParam \<noteq> HTERROR
           \<and> DefWindowProcW os hWnd WM_NCCALCSIZE wParam lParam \<noteq> HTNOWHERE
        then DefWindowProcW os hWnd WM_NCCALCSIZE wParam lParam
        else if wParam = 0 then 0 else WVR_REDRAW)"
  by (auto simp: customWindowHandler_def applyDefaultFrame_def Let_def
      split: sum.splits if_splits)

theorem nccalcsize_result_witness:
  "customWindowHandler desktop 0x100 WM_NCCALCSIZE 1 0 maximized_rect 0 =
     Inr (True, WVR_REDRAW,
          \<lparr>left_edge = 0, top_edge = 0, right_edge = 1920, bottom_edge = 1040\<rparr>,
          [Call_DefWindowProcW 0x100 WM_NCCALCSIZE 1 0])
   \<and> isWin10OrGreater desktop
   \<and> DefWindowProcW desktop 0x100 WM_NCCALCSIZE 1 0 = HTNOWHERE"
proof -
  have run: "customWindowHandler desktop 0x100 WM_NCCALCSIZE 1 0 maximized_rect 0 =
     Inr (True, 0x300,
          \<lparr>left_edge = 0, top_edge = 0, right_edge = 1920, bottom_edge = 1040\<rparr>,
          [Call_DefWindowProcW 0x100 WM_NCCALCSIZE 1 0])"
    by (simp add: customWindowHandler_def applyDefaultFrame_def applyMaximizedFrame_def
        applyAutoHideTaskbar_def isFullScreen_def getMonitorForWindow_def
        getResizeBorderThickness_def getDpiForWindow_def desktop_def desktop_apis_def
        maximized_rect_def monitor_rect_def default_frame_def Let_def win32)
  from nccalcsize_result [OF run] run show ?thesis
    by (simp add: desktop_def win32)
qed

text \<open>
  Claim C1, as stated, fails: on Windows 10 a default procedure that answers
  \<open>WVR_VALIDRECTS\<close> (0x400) to the rich form (\<open>wParam = TRUE\<close>) has the handler
  report the message as handled with that very answer, which is not \<open>WVR_REDRAW\<close>.
\<close>

theorem nccalcsize_result_counterexample:
  "customWindowHandler desktop_valid_rects 0x100 WM_NCCALCSIZE 1 0 maximized_rect 0 =
     Inr (True, 0x400, default_frame maximized_rect,
          [Call_DefWindowProcW 0x100 WM_NCCALCSIZE 1 0])
   \<and> (0x400 :: LRESULT) \<noteq> WVR_REDRAW \<and> (1 :: WPARAM) \<noteq> 0"
  by (simp add: customWindowHandler_def applyDefaultFrame_def desktop_valid_rects_def
      desktop_def win32)

text \<open>
  Claim C2, as amended. For a window that is maximized and not full screen the handler
  does the following with the proposed rectangle, \<open>f\<close> being the resize-border thickness
  (\<open>getResizeBorderThickness\<close>) and all arithmetic being 32-bit:
  \<^item> on Windows 10 and later, when the default procedure answers anything but \<open>HTERROR\<close>
    and \<open>HTNOWHERE\<close>, it returns the rectangle of the default procedure and moves no
    edge itself;
  \<^item> on Windows 10 and later otherwise, the top edge becomes the proposed top edge plus
    \<open>f\<close>, and the left, right and bottom edges stay as the default procedure left them;
  \<^item> on older versions all four edges of the proposed rectangle move inward by \<open>f\<close>.
  In the last two cases the auto-hide step follows on the rectangle so obtained.
\<close>

theorem maximized_frame:
  assumes "IsMaximized os hWnd" and "\<not> isFullScreen os hWnd"
  shows
    "let d = DefWindowProcW os hWnd WM_NCCALCSIZE wParam lParam;
         r0 = DefWindowProcW_rect os hWnd wParam clientRect;
         f = getResizeBorderThickness os hWnd;
         finish = (\<lambda>calls r2.
           case applyAutoHideTaskbar os hWnd r2 of
             Inl e \<Rightarrow> Inl e
           | Inr r3 \<Rightarrow> Inr (True, (if wParam = 0 then 0 else WVR_REDRAW), r3, calls))
     in customWindowHandler os hWnd WM_NCCALCSIZE wParam lParam clientRect result =
          (if isWin10OrGreater os then
             if d \<noteq> HTERROR \<and> d \<noteq> HTNOWHERE
             then Inr (True, d, r0, [Call_DefWindowProcW hWnd WM_NCCALCSIZE wParam lParam])
             else finish [Call_DefWindowProcW hWnd WM_NCCALCSIZE wParam lParam]
                    (r0\<lparr>top_edge := top_edge clientRect + f\<rparr>)
           else finish []
                  \<lparr>left_edge = left_edge clientRect + f, top_edge = top_edge clientRect + f,
                   right_edge = right_edge clientRect - f,
                   bottom_edge = bottom_edge clientRect - f\<rparr>)"
proof (cases "isWin10OrGreater os")
  case False
  then have "applyDefaultFrame os hWnd wParam lParam clientRect = Inr clientRect"
    by (simp add: applyDefaultFrame_goes_on)
  moreover have "applyMaximizedFrame os hWnd clientRect =
      \<lparr>left_edge = left_edge clientRect + getResizeBorderThickness os hWnd,
       top_edge = top_edge clientRect + getResizeBorderThickness os hWnd,
       right_edge = right_edge clientRect - getResizeBorderThickness os hWnd,
       bottom_edge = bottom_edge clientRect - getResizeBorderThickness os hWnd\<rparr>"
    using assms False by (simp add: applyMaximizedFrame_def Let_def)
  ultimately show ?thesis
    using False by (simp add: customWindowHandler_def Let_def)
next
  case True
  show ?thesis
  proof (cases "DefWindowProcW os hWnd WM_NCCALCSIZE wParam lParam \<noteq> HTERROR
      \<and> DefWindowProcW os hWnd WM_NCCALCSIZE wParam lParam \<noteq> HTNOWHERE")
    case True
    with \<open>isWin10OrGreater os\<close> show ?thesis
      by (simp add: customWindowHandler_def applyDefaultFrame_ends Let_def)
  next
    case False
    then have "applyDefaultFrame os hWnd wParam lParam clientRect =
        Inr ((DefWindowProcW_rect os hWnd wParam clientRect)\<lparr>top_edge := top_edge clientRect\<rparr>)"
      using \<open>isWin10OrGreater os\<close> applyDefaultFrame_goes_on [of os hWnd wParam lParam clientRect]
      by auto
    moreover have "applyMaximizedFrame os hWnd
         ((DefWindowProcW_rect os hWnd wParam clientRect)\<lparr>top_edge := top_edge clientRect\<rparr>) =
        (DefWindowProcW_rect os hWnd wParam clientRect)
          \<lparr>top_edge := top_edge clientRect + getResizeBorderThickness os hWnd\<rparr>"
      using assms \<open>isWin10OrGreater os\<close> by (simp add: applyMaximizedFrame_def Let_def)
    ultimately show ?thesis
      using False \<open>isWin10OrGreater os\<close> by (auto simp: customWindowHandler_def Let_def)
  qed
qed

text \<open>
  The three cases at work: Windows 10 with the default procedure answering 0 (the top
  edge goes from -8 to 0, the other edges are those of the default frame), Windows 7
  (all four edges move by 8), and Windows 10 with the default procedure answering 0x400.
\<close>

theorem maximized_frame_witness:
  "IsMaximized desktop 0x100 \<and> \<not> isFullScreen desktop 0x100
   \<and> getResizeBorderThickness desktop 0x100 = 8
   \<and> customWindowHandler desktop 0x100 WM_NCCALCSIZE 1 0 maximized_rect 0 =
       Inr (True, WVR_REDRAW,
            \<lparr>left_edge = 0, top_edge = 0, right_edge = 1920, bottom_edge = 1040\<rparr>,
            [Call_DefWindowProcW 0x100 WM_NCCALCSIZE 1 0])
   \<and> IsMaximized desktop_win7 0x100 \<and> \<not> isFullScreen desktop_win7 0x100
   \<and> getResizeBorderThickness desktop_win7 0x100 = 8
   \<and> customWindowHandler desktop_win7 0x100 WM_NCCALCSIZE 0 0 maximized_rect 0 =
       Inr (True, 0, \<lparr>left_edge = 0, top_edge = 0, right_edge = 1920, bottom_edge = 1040\<rparr>, [])
   \<and> customWindowHandler desktop_valid_rects 0x100 WM_NCCALCSIZE 1 0 maximized_rect 0 =
       Inr (True, 0x400,
            \<lparr>left_edge = 0, top_edge = 23, right_edge = 1920, bottom_edge = 1040\<rparr>,
            [Call_DefWindowProcW 0x100 WM_NCCALCSIZE 1 0])"
  using maximized_frame [of desktop "0x100" 1 0 maximized_rect 0]
    maximized_frame [of desktop_win7 "0x100" 0 0 maximized_rect 0]
    maximized_frame [of desktop_valid_rects "0x100" 1 0 maximized_rect 0]
  by (simp add: applyAutoHideTaskbar_def isFullScreen_def getMonitorForWindow_def
      getResizeBorderThickness_def getDpiForWindow_def desktop_win7_def desktop_valid_rects_def
      desktop_def desktop_apis_def maximized_rect_def monitor_rect_def default_frame_def
      Let_def win32)

text \<open>
  Claim C2, as stated, fails: the window is maximized and not full screen and the
  border is 8 pixels thick, but on Windows 10 with the default procedure answering 0x400
  the handler returns the rectangle of the default procedure, whose top edge is 23 and
  not -8 + 8.
\<close>

theorem maximized_frame_counterexample:
  "IsMaximized desktop_valid_rects 0x100 \<and> \<not> isFullScreen desktop_valid_rects 0x100
   \<and> getResizeBorderThickness desktop_valid_rects 0x100 = 8
   \<and> customWindowHandler desktop_valid_rects 0x100 WM_NCCALCSIZE 1 0 maximized_rect 0 =
       Inr (True, 0x400,
            \<lparr>left_edge = 0, top_edge = 23, right_edge = 1920, bottom_edge = 1040\<rparr>,
            [Call_DefWindowProcW 0x100 WM_NCCALCSIZE 1 0])
   \<and> (23 :: LONG) \<noteq> top_edge maximized_rect + 8"
  by (simp add: customWindowHandler_def applyDefaultFrame_def isFullScreen_def
      getMonitorForWindow_def getResizeBorderThickness_def getDpiForWindow_def
      desktop_valid_rects_def desktop_def desktop_apis_def maximized_rect_def monitor_rect_def
      default_frame_def Let_def win32)

text \<open>
  Claim C8, as amended. Let the window be maximized or full screen, the task bar be in
  auto-hide state, and a task bar be found on some edge of the monitor of the window.
  When the handler goes on past the default frame (a version older than Windows 10, or
  a default procedure that answered \<open>HTERROR\<close> or \<open>HTNOWHERE\<close>), the client rectangle
  is shrunk by \<open>kAutoHideTaskBarThickness\<close> = 2 on one edge only: the first of top,
  bottom, left and right on which a task bar is found; the three other edges stay as
  the preceding step left them. When, on Windows 10 and later, the default procedure
  answers anything else, the handler returns the rectangle of the default procedure and
  shrinks no edge.
\<close>

theorem autohide_taskbar_edge:
  assumes "IsMaximized os hWnd \<or> isFullScreen os hWnd"
    and "SHAppBarMessage_GETSTATE os AND ABS_AUTOHIDE \<noteq> 0"
    and "autoHideTaskbarEdges os hWnd = Inr (atTop, atBottom, atLeft, atRight)"
    and "atTop \<or> atBottom \<or> atLeft \<or> atRight"
  shows "(applyDefaultFrame os hWnd wParam lParam clientRect = Inr framed \<longrightarrow>
           (let r2 = applyMaximizedFrame os hWnd framed;
                r3 = (if atTop then r2\<lparr>top_edge := top_edge r2 + 2\<rparr>
                      else if atBottom then r2\<lparr>bottom_edge := bottom_edge r2 - 2\<rparr>
                      else if atLeft then r2\<lparr>left_edge := left_edge r2 + 2\<rparr>
                      else r2\<lparr>right_edge := right_edge r2 - 2\<rparr>)
            in customWindowHandler os hWnd WM_NCCALCSIZE wParam lParam clientRect result =
                 Inr (True, (if wParam = 0 then 0 else WVR_REDRAW), r3,
                      (if isWin10OrGreater os
                       then [Call_DefWindowProcW hWnd WM_NCCALCSIZE wParam lParam] else []))
               \<and> edges_changed r2 r3 = 1))
       \<and> (isWin10OrGreater os
            \<and> DefWindowProcW os hWnd WM_NCCALCSIZE wParam lParam \<noteq> HTERROR
            \<and> DefWindowProcW os hWnd WM_NCCALCSIZE wParam lParam \<noteq> HTNOWHERE \<longrightarrow>
           customWindowHandler os hWnd WM_NCCALCSIZE wParam lParam clientRect result =
             Inr (True, DefWindowProcW os hWnd WM_NCCALCSIZE wParam lParam,
                  DefWindowProcW_rect os hWnd wParam clientRect,
                  [Call_DefWindowProcW hWnd WM_NCCALCSIZE wParam lParam]))"
proof -
  have goes_on: "let r2 = applyMaximizedFrame os hWnd framed;
                r3 = (if atTop then r2\<lparr>top_edge := top_edge r2 + 2\<rparr>
                      else if atBottom then r2\<lparr>bottom_edge := bottom_edge r2 - 2\<rparr>
                      else if atLeft then r2\<lparr>left_edge := left_edge r2 + 2\<rparr>
                      else r2\<lparr>right_edge := right_edge r2 - 2\<rparr>)
            in customWindowHandler os hWnd WM_NCCALCSIZE wParam lParam clientRect result =
                 Inr (True, (if wParam = 0 then 0 else WVR_REDRAW), r3,
                      (if isWin10OrGreater os
                       then [Call_DefWindowProcW hWnd WM_NCCALCSIZE wParam lParam] else []))
               \<and> edges_changed r2 r3 = 1"
    if past: "applyDefaultFrame os hWnd wParam lParam clientRect = Inr framed"
  proof -
    let ?r2 = "applyMaximizedFrame os hWnd framed"
    have step: "applyAutoHideTaskbar os hWnd ?r2 =
        Inr (shrinkForTaskbar (atTop, atBottom, atLeft, atRight) ?r2)"
      using assms(1-3) by (auto simp: applyAutoHideTaskbar_def Let_def)
    have shape: "shrinkForTaskbar (atTop, atBottom, atLeft, atRight) ?r2 =
        (if atTop then ?r2\<lparr>top_edge := top_edge ?r2 + 2\<rparr>
         else if atBottom then ?r2\<lparr>bottom_edge := bottom_edge ?r2 - 2\<rparr>
         else if atLeft then ?r2\<lparr>left_edge := left_edge ?r2 + 2\<rparr>
         else ?r2\<lparr>right_edge := right_edge ?r2 - 2\<rparr>)"
      using assms(4) by (auto simp: shrinkForTaskbar_def kAutoHideTaskBarThickness_def)
    have "customWindowHandler os hWnd WM_NCCALCSIZE wParam lParam clientRect result =
        Inr (True, (if wParam = 0 then 0 else WVR_REDRAW),
             shrinkForTaskbar (atTop, atBottom, atLeft, atRight) ?r2,
             (if isWin10OrGreater os
              then [Call_DefWindowProcW hWnd WM_NCCALCSIZE wParam lParam] else []))"
      using past step by (simp add: customWindowHandler_def Let_def)
    moreover have
      "edges_changed ?r2 (shrinkForTaskbar (atTop, atBottom, atLeft, atRight) ?r2) = 1"
      using assms(4) by (rule shrinkForTaskbar_edges)
    ultimately show ?thesis
      unfolding Let_def shape [symmetric] by simp
  qed
  have ends: "customWindowHandler os hWnd WM_NCCALCSIZE wParam lParam clientRect result =
             Inr (True, DefWindowProcW os hWnd WM_NCCALCSIZE wParam lParam,
                  DefWindowProcW_rect os hWnd wParam clientRect,
                  [Call_DefWindowProcW hWnd WM_NCCALCSIZE wParam lParam])"
    if "isWin10OrGreater os" "DefWindowProcW os hWnd WM_NCCALCSIZE wParam lParam \<noteq> HTERROR"
      "DefWindowProcW os hWnd WM_NCCALCSIZE wParam lParam \<noteq> HTNOWHERE"
    using that by (simp add: customWindowHandler_def applyDefaultFrame_ends Let_def)
  from goes_on ends show ?thesis by blast
qed

text \<open>
  A task bar hiding at the bottom edge: the bottom edge goes from 1040 to 1038. With the
  default procedure answering 0x400 the rectangle is the one of the default procedure.
\<close>

theorem autohide_taskbar_edge_witness:
  "IsMaximized desktop_autohide 0x100
   \<and> SHAppBarMessage_GETSTATE desktop_autohide AND ABS_AUTOHIDE \<noteq> 0
   \<and> autoHideTaskbarEdges desktop_autohide 0x100 = Inr (False, True, False, False)
   \<and> applyDefaultFrame desktop_autohide 0x100 0 0 maximized_rect =
     Inr \<lparr>left_edge = 0, top_edge = - 8, right_edge = 1920, bottom_edge = 1040\<rparr>
   \<and> applyMaximizedFrame desktop_autohide 0x100
        \<lparr>left_edge = 0, top_edge = - 8, right_edge = 1920, bottom_edge = 1040\<rparr> =
      \<lparr>left_edge = 0, top_edge = 0, right_edge = 1920, bottom_edge = 1040\<rparr>
   \<and> customWindowHandler desktop_autohide 0x100 WM_NCCALCSIZE 0 0 maximized_rect 0 =
       Inr (True, 0, \<lparr>left_edge = 0, top_edge = 0, right_edge = 1920, bottom_edge = 1038\<rparr>,
            [Call_DefWindowProcW 0x100 WM_NCCALCSIZE 0 0])
   \<and> edges_changed \<lparr>left_edge = 0, top_edge = 0, right_edge = 1920, bottom_edge = 1040\<rparr>
        \<lparr>left_edge = 0, top_edge = 0, right_edge = 1920, bottom_edge = 1038\<rparr> = 1
   \<and> IsMaximized desktop_autohide_valid_rects 0x100
   \<and> SHAppBarMessage_GETSTATE desktop_autohide_valid_rects AND ABS_AUTOHIDE \<noteq> 0
   \<and> autoHideTaskbarEdges desktop_autohide_valid_rects 0x100 = Inr (False, True, False, False)
   \<and> isWin10OrGreater desktop_autohide_valid_rects
   \<and> customWindowHandler desktop_autohide_valid_rects 0x100 WM_NCCALCSIZE 1 0 maximized_rect 0 =
       Inr (True, 0x400,
            \<lparr>left_edge = 0, top_edge = 23, right_edge = 1920, bottom_edge = 1040\<rparr>,
            [Call_DefWindowProcW 0x100 WM_NCCALCSIZE 1 0])"
  using autohide_taskbar_edge [where os = desktop_autohide and hWnd = "0x100" and wParam = 0
      and lParam = 0 and clientRect = maximized_rect and result = 0
      and framed = "\<lparr>left_edge = 0, top_edge = - 8, right_edge = 1920, bottom_edge = 1040\<rparr>"
      and atTop = False and atBottom = True and atLeft = False and atRight = False]
    autohide_taskbar_edge [where os = desktop_autohide_valid_rects and hWnd = "0x100"
      and wParam = 1 and lParam = 0 and clientRect = maximized_rect and result = 0
      and framed = maximized_rect
      and atTop = False and atBottom = True and atLeft = False and atRight = False]
  by (simp add: applyDefaultFrame_def applyMaximizedFrame_def autoHideTaskbarEdges_def
      getMonitorForWindow_def isFullScreen_def getResizeBorderThickness_def getDpiForWindow_def
      desktop_autohide_valid_rects_def desktop_autohide_def desktop_def desktop_apis_def
      maximized_rect_def monitor_rect_def default_frame_def zero_RECT_def Let_def win32)

text \<open>
  Claim C8, as stated, fails: on Windows 10 the window is maximized, the task bar is in
  auto-hide state and a task bar is found at the bottom edge, but the default procedure
  answers 0x400 and the handler returns the rectangle of the default procedure, bottom
  edge 1040: no edge is shrunk by 2.
\<close>

theorem autohide_taskbar_edge_counterexample:
  "IsMaximized desktop_autohide_valid_rects 0x100
   \<and> SHAppBarMessage_GETSTATE desktop_autohide_valid_rects AND ABS_AUTOHIDE \<noteq> 0
   \<and> autoHideTaskbarEdges desktop_autohide_valid_rects 0x100 = Inr (False, True, False, False)
   \<and> DefWindowProcW_rect desktop_autohide_valid_rects 0x100 1 maximized_rect =
       \<lparr>left_edge = 0, top_edge = 23, right_edge = 1920, bottom_edge = 1040\<rparr>
   \<and> customWindowHandler desktop_autohide_valid_rects 0x100 WM_NCCALCSIZE 1 0 maximized_rect 0 =
       Inr (True, 0x400,
            \<lparr>left_edge = 0, top_edge = 23, right_edge = 1920, bottom_edge = 1040\<rparr>,
            [Call_DefWindowProcW 0x100 WM_NCCALCSIZE 1 0])
   \<and> edges_changed \<lparr>left_edge = 0, top_edge = 23, right_edge = 1920, bottom_edge = 1040\<rparr>
        \<lparr>left_edge = 0, top_edge = 23, right_edge = 1920, bottom_edge = 1040\<rparr> = 0"
  by (simp add: customWindowHandler_def applyDefaultFrame_def autoHideTaskbarEdges_def
      getMonitorForWindow_def edges_changed_def
      desktop_autohide_valid_rects_def desktop_autohide_def desktop_def
      maximized_rect_def monitor_rect_def default_frame_def Let_def win32)

section \<open>Emulated client-area messages\<close>

lemma getKeyState_low: "getKeyState os AND 0x7F = getKeyState os"
  unfolding getKeyState_def Let_def
  by (simp add: win32 bit.conj_disj_distrib2)

text \<open>
  \<open>MAKEWPARAM\<close> of a key state and of the X-button index of a word: the key state in
  the low word, the high word of the given word above it.
\<close>

lemma MAKEWPARAM_split:
  fixes k w :: "64 word"
  assumes "k AND 0x7F = k"
  shows "MAKEWPARAM k (ucast (GET_XBUTTON_WPARAM w)) = k OR (w AND 0xFFFF0000)"
proof -
  have m7: "(0x7F :: 64 word) = mask 7" by (simp add: mask_eq_exp_minus_1)
  have m16: "(0xffff :: 64 word) = mask 16" by (simp add: mask_eq_exp_minus_1)
  have mhi: "(0xFFFF0000 :: 64 word) = push_bit 16 (mask 16)"
    by (simp add: mask_eq_exp_minus_1 push_bit_eq_mult)
  have kbits: "n < 7" if "bit k n" for n
  proof -
    from assms have "bit (k AND mask 7) n" using that by (simp add: m7)
    then show ?thesis by (simp add: bit_simps)
  qed
  show ?thesis
    unfolding MAKEWPARAM_def MAKELONG_def LOWORD_def HIWORD_def GET_XBUTTON_WPARAM_def m16 mhi
    by (rule bit_eqI) (auto simp: bit_simps dest: kbits)
qed

lemma emulate_nonclient:
  assumes "message \<in> set nonClientMouseMessages"
  shows "\<exists>m. clientAreaMessage message = Some m \<and>
     emulateClientAreaMessage os hWnd message wParam lParam None =
       [Call_PostMessageW hWnd m
          (if message \<in> {WM_NCXBUTTONDOWN, WM_NCXBUTTONUP, WM_NCXBUTTONDBLCLK}
           then getKeyState os OR (wParam AND 0xFFFF0000) else getKeyState os)
          (client_lParam os hWnd lParam)]"
  using assms unfolding nonClientMouseMessages_def
  by (auto simp: emulateClientAreaMessage_def clientAreaMessage_def client_lParam_def Let_def
      MAKEWPARAM_split [OF getKeyState_low] win32)

lemma emulate_leave:
  "emulateClientAreaMessage os hWnd message wParam lParam (Some WM_NCMOUSELEAVE) =
     [Call_PostMessageW hWnd WM_MOUSELEAVE kMessageTag 0]"
  by (simp add: emulateClientAreaMessage_def clientAreaMessage_def Let_def win32)

lemma nonClientMouseMessages_distinct:
  "message \<in> set nonClientMouseMessages \<Longrightarrow>
   message \<noteq> WM_MOUSELEAVE \<and> message \<noteq> WM_MOUSEMOVE \<and> message \<noteq> WM_NCMOUSELEAVE
   \<and> message \<noteq> WM_NCCALCSIZE \<and> message \<notin> set teardownMessages"
  by (auto simp: nonClientMouseMessages_def teardownMessages_def win32)

text \<open>
  Claim C3, as amended. A non-client mouse message that arrives while the last hit test
  says \<open>ChromeButton\<close> is posted again once, as its client-area twin. The \<open>wParam\<close> of
  the posted message is the live key state (\<open>getKeyState\<close>); for the three X-button
  messages it is the live key state in the low word together with the high word of the
  \<open>wParam\<close> that the operating system supplied, which names the X button. The emulated
  mouse-leave, posted when a suppressed leave is pending and the last hit test is not
  \<open>ChromeButton\<close>, carries the tag \<open>kMessageTag\<close> instead and a zero \<open>lParam\<close>.
\<close>

theorem emulated_button_word:
  "(lastHitTestResult c = ChromeButton \<and> message \<in> set nonClientMouseMessages \<longrightarrow>
      (\<exists>m. clientAreaMessage message = Some m \<and>
         snd (snd (snd (snapLayoutHandler os c hWnd message wParam lParam result))) =
           Call_PostMessageW hWnd m
             (if message \<in> {WM_NCXBUTTONDOWN, WM_NCXBUTTONUP, WM_NCXBUTTONDBLCLK}
              then getKeyState os OR (wParam AND 0xFFFF0000) else getKeyState os)
             (client_lParam os hWnd lParam)
           # (if message = WM_NCMOUSEMOVE
              then [Call_DefWindowProcW hWnd WM_NCMOUSEMOVE wParam lParam] else [])))
   \<and> (lastHitTestResult c \<noteq> ChromeButton \<and> mouseLeaveBlocked c \<longrightarrow>
        snd (snd (snd (snapLayoutHandler os c hWnd WM_NCMOUSEMOVE wParam lParam result))) =
          [Call_resetQtGrabbedControl, Call_PostMessageW hWnd WM_MOUSELEAVE kMessageTag 0]
        \<and> snd (snd (snd (snapLayoutHandler os c hWnd WM_NCMOUSELEAVE wParam lParam result))) =
          Call_PostMessageW hWnd WM_MOUSELEAVE kMessageTag 0
          # (if lastHitTestResult c = Outside then [Call_resetQtGrabbedControl] else []))"
proof -
  have chrome: "\<exists>m. clientAreaMessage message = Some m \<and>
         snd (snd (snd (snapLayoutHandler os c hWnd message wParam lParam result))) =
           Call_PostMessageW hWnd m
             (if message \<in> {WM_NCXBUTTONDOWN, WM_NCXBUTTONUP, WM_NCXBUTTONDBLCLK}
              then getKeyState os OR (wParam AND 0xFFFF0000) else getKeyState os)
             (client_lParam os hWnd lParam)
           # (if message = WM_NCMOUSEMOVE
              then [Call_DefWindowProcW hWnd WM_NCMOUSEMOVE wParam lParam] else [])"
    if at: "lastHitTestResult c = ChromeButton" and nc: "message \<in> set nonClientMouseMessages"
  proof -
    from emulate_nonclient [OF nc] obtain m where
      m: "clientAreaMessage message = Some m"
      and e: "emulateClientAreaMessage os hWnd message wParam lParam None =
         [Call_PostMessageW hWnd m
            (if message \<in> {WM_NCXBUTTONDOWN, WM_NCXBUTTONUP, WM_NCXBUTTONDBLCLK}
             then getKeyState os OR (wParam AND 0xFFFF0000) else getKeyState os)
            (client_lParam os hWnd lParam)]"
      by blast
    have "snd (snd (snd (snapLayoutHandler os c hWnd message wParam lParam result))) =
        emulateClientAreaMessage os hWnd message wParam lParam None
         @ (if message = WM_NCMOUSEMOVE
            then [Call_DefWindowProcW hWnd WM_NCMOUSEMOVE wParam lParam] else [])"
      using at nc nonClientMouseMessages_distinct [OF nc]
      by (simp add: snapLayoutHandler_def Let_def)
    with m e show ?thesis by simp
  qed
  have move_in: "WM_NCMOUSEMOVE \<in> set nonClientMouseMessages"
    by (simp add: nonClientMouseMessages_def)
  have leave_out: "WM_NCMOUSELEAVE \<notin> set nonClientMouseMessages"
    "WM_NCMOUSELEAVE \<noteq> WM_MOUSELEAVE" "WM_NCMOUSELEAVE \<noteq> WM_MOUSEMOVE"
    by (simp_all add: nonClientMouseMessages_def win32)
  have leave: "snd (snd (snd (snapLayoutHandler os c hWnd WM_NCMOUSEMOVE wParam lParam result))) =
          [Call_resetQtGrabbedControl, Call_PostMessageW hWnd WM_MOUSELEAVE kMessageTag 0]
        \<and> snd (snd (snd (snapLayoutHandler os c hWnd WM_NCMOUSELEAVE wParam lParam result))) =
          Call_PostMessageW hWnd WM_MOUSELEAVE kMessageTag 0
          # (if lastHitTestResult c = Outside then [Call_resetQtGrabbedControl] else [])"
    if "lastHitTestResult c \<noteq> ChromeButton" "mouseLeaveBlocked c"
    using that move_in leave_out nonClientMouseMessages_distinct [OF move_in]
    by (simp add: snapLayoutHandler_def emulate_leave Let_def)
  from chrome leave show ?thesis by blast
qed

lemma clientAreaMessage_xdown: "clientAreaMessage WM_NCXBUTTONDOWN = Some WM_XBUTTONDOWN"
  by (simp add: clientAreaMessage_def win32)

text \<open>
  With the left button and the shift key down, an X-button press over a chrome button
  whose \<open>wParam\<close> names the second X button (0x20000) and, in its low word, the hit-test
  code \<open>HTCLOSE\<close> (20): the posted word is \<open>MK_LBUTTON OR MK_SHIFT\<close> below 0x20000. And a non-client
  mouse-leave while a suppressed leave is pending: the posted leave carries the tag.
\<close>

theorem emulated_button_word_witness:
  "lastHitTestResult hovering_context = ChromeButton
   \<and> WM_NCXBUTTONDOWN \<in> set nonClientMouseMessages
   \<and> getKeyState desktop_keys_down = 5
   \<and> snd (snd (snd (snapLayoutHandler desktop_keys_down hovering_context 0x100 WM_NCXBUTTONDOWN
        0x20014 0x00640032 0))) =
        [Call_PostMessageW 0x100 WM_XBUTTONDOWN 0x20005 0x00640032]
   \<and> lastHitTestResult suppressed_context \<noteq> ChromeButton
   \<and> mouseLeaveBlocked suppressed_context
   \<and> snd (snd (snd (snapLayoutHandler desktop suppressed_context 0x100 WM_NCMOUSELEAVE 0 0 0))) =
        [Call_PostMessageW 0x100 WM_MOUSELEAVE kMessageTag 0, Call_resetQtGrabbedControl]"
proof -
  have k: "getKeyState desktop_keys_down = 5"
    by (simp add: getKeyState_def desktop_keys_down_def desktop_def Let_def win32)
  have l: "client_lParam desktop_keys_down 0x100 0x00640032 = 0x00640032"
    by (simp add: client_lParam_def desktop_keys_down_def desktop_def Let_def
        GET_X_LPARAM_def GET_Y_LPARAM_def MAKELPARAM_def MAKELONG_def LOWORD_def HIWORD_def)
  have at: "lastHitTestResult hovering_context = ChromeButton"
    by (simp add: hovering_context_def)
  have nc: "WM_NCXBUTTONDOWN \<in> set nonClientMouseMessages"
    by (simp add: nonClientMouseMessages_def)
  have x: "WM_NCXBUTTONDOWN \<noteq> WM_NCMOUSEMOVE" by (simp add: win32)
  have s: "lastHitTestResult suppressed_context = Outside" "mouseLeaveBlocked suppressed_context"
    by (simp_all add: suppressed_context_def fresh_context_def)
  have first: "snd (snd (snd (snapLayoutHandler desktop_keys_down hovering_context 0x100
        WM_NCXBUTTONDOWN 0x20014 0x00640032 0))) =
      [Call_PostMessageW 0x100 WM_XBUTTONDOWN 0x20005 0x00640032]"
    using emulated_button_word [of hovering_context WM_NCXBUTTONDOWN desktop_keys_down "0x100"
      "0x20014" "0x00640032" 0] at nc
    by (simp add: k l x clientAreaMessage_xdown)
  have second: "snd (snd (snd (snapLayoutHandler desktop suppressed_context 0x100
        WM_NCMOUSELEAVE 0 0 0))) =
      [Call_PostMessageW 0x100 WM_MOUSELEAVE kMessageTag 0, Call_resetQtGrabbedControl]"
    using emulated_button_word [of suppressed_context WM_NCMOUSEMOVE desktop "0x100" 0 0 0] s
    by simp
  from at nc k first second s show ?thesis by simp
qed

text \<open>
  Claim C3, as stated, fails: no key is down, so the live key state is 0, yet the word of
  the posted X-button message is 0x20000, the high word of the word 0x20014 that the
  operating system supplied.
\<close>

theorem emulated_button_word_counterexample:
  "lastHitTestResult hovering_context = ChromeButton
   \<and> getKeyState desktop = 0
   \<and> emulateClientAreaMessage desktop 0x100 WM_NCXBUTTONDOWN 0x20014 0 None =
       [Call_PostMessageW 0x100 WM_XBUTTONDOWN 0x20000 0]
   \<and> snapLayoutHandler desktop hovering_context 0x100 WM_NCXBUTTONDOWN 0x20014 0 0 =
       (True, 1, hovering_context, [Call_PostMessageW 0x100 WM_XBUTTONDOWN 0x20000 0])"
proof -
  have k: "getKeyState desktop = 0"
    by (simp add: getKeyState_def desktop_def Let_def win32)
  have e: "emulateClientAreaMessage desktop 0x100 WM_NCXBUTTONDOWN 0x20014 0 None =
       [Call_PostMessageW 0x100 WM_XBUTTONDOWN 0x20000 0]"
    unfolding emulateClientAreaMessage_def k
    by (simp add: clientAreaMessage_def desktop_def Let_def win32
        GET_X_LPARAM_def GET_Y_LPARAM_def MAKELPARAM_def MAKEWPARAM_def MAKELONG_def LOWORD_def
        HIWORD_def GET_XBUTTON_WPARAM_def)
  have nc: "WM_NCXBUTTONDOWN \<in> set nonClientMouseMessages"
    by (simp add: nonClientMouseMessages_def)
  have "snapLayoutHandler desktop hovering_context 0x100 WM_NCXBUTTONDOWN 0x20014 0 0 =
       (True, 1, hovering_context, [Call_PostMessageW 0x100 WM_XBUTTONDOWN 0x20000 0])"
    using nc nonClientMouseMessages_distinct [OF nc]
    by (simp add: snapLayoutHandler_def e hovering_context_def Let_def) (simp add: win32)
  with k e show ?thesis by (simp add: hovering_context_def)
qed

section \<open>The message handler and the snap-layout state machine\<close>

lemma customWindowHandler_other:
  "message \<noteq> WM_NCCALCSIZE \<Longrightarrow>
   customWindowHandler os hWnd message wParam lParam clientRect result = Inr (False, result, clientRect, [])"
  by (simp add: customWindowHandler_def)

lemma desktop_valid: "isValidWindow desktop 0x100 False True"
  by (simp add: isValidWindow_def desktop_def maximized_rect_def Let_def win32)

text \<open>
  Claim C5, as amended. For a teardown message (\<open>WM_CLOSE\<close>, \<open>WM_DESTROY\<close>,
  \<open>WM_NCDESTROY\<close>, \<open>WM_UAHDESTROYWINDOW\<close>, \<open>WM_UNREGISTER_WINDOW_SERVICES\<close>) the
  message handler reports the message as not handled, makes no call, and leaves the
  context (last hit-test result and leave-suppression flag included) and the client
  rectangle as they were. The value behind \<open>result\<close> is not kept: it is set to zero.
\<close>

theorem teardown_passes_through:
  "message \<in> set teardownMessages \<Longrightarrow>
   windowProc os c hWnd message wParam lParam clientRect result =
     Inr \<lparr>out_handled = False, out_result = 0, out_ctx = c, out_rect = clientRect, out_calls = []\<rparr>"
  by (simp add: windowProc_def)

theorem teardown_passes_through_witness:
  "WM_NCDESTROY \<in> set teardownMessages \<and>
   windowProc desktop hovering_context 0x100 WM_NCDESTROY 5 7 maximized_rect 0 =
     Inr \<lparr>out_handled = False, out_result = 0, out_ctx = hovering_context,
          out_rect = maximized_rect, out_calls = []\<rparr>"
  using teardown_passes_through [of WM_NCDESTROY desktop hovering_context "0x100" 5 7 maximized_rect 0]
  by (simp add: teardownMessages_def)

text \<open>
  Claim C5, as stated, fails for the result: \<open>WM_CLOSE\<close> received with 0x300 behind
  \<open>result\<close> leaves 0 there.
\<close>

theorem teardown_passes_through_counterexample:
  "windowProc desktop fresh_context 0x100 WM_CLOSE 0 0 maximized_rect 0x300 =
     Inr \<lparr>out_handled = False, out_result = 0, out_ctx = fresh_context,
          out_rect = maximized_rect, out_calls = []\<rparr>
   \<and> (0 :: LRESULT) \<noteq> 0x300"
  by (simp add: windowProc_def teardownMessages_def)

text \<open>What the message handler does with the three messages that touch the suppression flag.\<close>

lemma windowProc_mousemove:
  assumes "isValidWindow os (windowId c) False True"
  shows "windowProc os c hWnd WM_MOUSEMOVE wParam lParam clientRect result =
     Inr \<lparr>out_handled = False, out_result = 0,
          out_ctx = (if lastHitTestResult c \<noteq> ChromeButton then c\<lparr>mouseLeaveBlocked := False\<rparr> else c),
          out_rect = clientRect,
          out_calls = (if lastHitTestResult c \<noteq> ChromeButton \<and> mouseLeaveBlocked c
                       then [Call_TrackMouseEvent TME_LEAVE hWnd HOVER_DEFAULT] else [])\<rparr>"
proof -
  have [simp]: "WM_MOUSEMOVE \<notin> set teardownMessages" "WM_MOUSEMOVE \<noteq> WM_MOUSELEAVE"
    "WM_MOUSEMOVE \<noteq> WM_NCCALCSIZE"
    by (simp_all add: teardownMessages_def win32)
  have "\<not> mouseLeaveBlocked c \<Longrightarrow> c\<lparr>mouseLeaveBlocked := False\<rparr> = c"
    by (cases c) simp
  then show ?thesis
    using assms
    by (auto simp: windowProc_def snapLayoutHandler_def customWindowHandler_other
        requestForMouseLeaveMessage_def Let_def)
qed


lemma windowProc_ncmouseleave:
  assumes "isValidWindow os (windowId c) False True"
  shows "windowProc os c hWnd WM_NCMOUSELEAVE wParam lParam clientRect result =
     Inr \<lparr>out_handled = False, out_result = 0,
          out_ctx = (if lastHitTestResult c = ChromeButton then c\<lparr>mouseLeaveBlocked := False\<rparr> else c),
          out_rect = clientRect,
          out_calls =
            (if lastHitTestResult c = ChromeButton
             then (if mouseLeaveBlocked c
                   then [Call_TrackMouseEvent TME_LEAVE hWnd HOVER_DEFAULT] else [])
             else (if mouseLeaveBlocked c
                   then [Call_PostMessageW hWnd WM_MOUSELEAVE kMessageTag 0] else [])
                  @ (if lastHitTestResult c = Outside then [Call_resetQtGrabbedControl] else []))\<rparr>"
proof -
  have [simp]: "WM_NCMOUSELEAVE \<notin> set teardownMessages" "WM_NCMOUSELEAVE \<noteq> WM_MOUSELEAVE"
    "WM_NCMOUSELEAVE \<noteq> WM_NCCALCSIZE" "WM_NCMOUSELEAVE \<noteq> WM_MOUSEMOVE"
    "WM_NCMOUSELEAVE \<notin> set nonClientMouseMessages"
    by (simp_all add: teardownMessages_def nonClientMouseMessages_def win32)
  have "\<not> mouseLeaveBlocked c \<Longrightarrow> c\<lparr>mouseLeaveBlocked := False\<rparr> = c"
    by (cases c) simp
  then show ?thesis
    using assms
    by (auto simp: windowProc_def snapLayoutHandler_def customWindowHandler_other
        requestForMouseLeaveMessage_def emulate_leave Let_def)
qed

lemma windowProc_mouseleave:
  assumes "isValidWindow os (windowId c) False True"
  shows "windowProc os c hWnd WM_MOUSELEAVE wParam lParam clientRect result =
     (if \<not> isTaggedMessage wParam
         \<and> isInSystemButtons os (fromNativeLocalPosition os (m_windowHandle c)
              \<lparr>x_coord = GET_X_LPARAM (ucast (GetMessagePos os)),
               y_coord = GET_Y_LPARAM (ucast (GetMessagePos os))\<rparr>)
      then Inr \<lparr>out_handled = True, out_result = 0, out_ctx = c\<lparr>mouseLeaveBlocked := True\<rparr>,
                out_rect = clientRect, out_calls = []\<rparr>
      else Inr \<lparr>out_handled = False, out_result = 0, out_ctx = c\<lparr>mouseLeaveBlocked := False\<rparr>,
                out_rect = clientRect, out_calls = []\<rparr>)"
proof -
  have [simp]: "WM_MOUSELEAVE \<notin> set teardownMessages" "WM_MOUSELEAVE \<noteq> WM_NCCALCSIZE"
    by (simp_all add: teardownMessages_def win32)
  show ?thesis
    using assms
    by (auto simp: windowProc_def snapLayoutHandler_def customWindowHandler_other Let_def)
qed

lemma snapLayoutHandler_keeps:
  "snapLayoutHandler os c hWnd message wParam lParam result = (h, r, c', cs) \<Longrightarrow>
   windowId c' = windowId c \<and>
   (lastHitTestResult c \<noteq> ChromeButton \<longrightarrow> lastHitTestResult c' \<noteq> ChromeButton)"
  by (auto simp: snapLayoutHandler_def Let_def split: if_splits)

lemma windowProc_keeps:
  assumes "windowProc os c hWnd message wParam lParam clientRect result = Inr out"
  shows "windowId (out_ctx out) = windowId c \<and>
   (lastHitTestResult c \<noteq> ChromeButton \<longrightarrow> lastHitTestResult (out_ctx out) \<noteq> ChromeButton)"
proof (cases "message \<in> set teardownMessages \<or> \<not> isValidWindow os (windowId c) False True")
  case True
  with assms show ?thesis by (auto simp: windowProc_def split: if_splits)
next
  case False
  obtain h r c' cs where s: "snapLayoutHandler os c hWnd message wParam lParam 0 = (h, r, c', cs)"
    by (metis prod_cases4)
  from assms False s have "out_ctx out = c'"
    by (auto simp: windowProc_def split: if_splits sum.splits)
  with snapLayoutHandler_keeps [OF s] show ?thesis by simp
qed

lemma run_messages_keeps:
  "run_messages es c = Inr c' \<Longrightarrow>
   windowId c' = windowId c \<and>
   (lastHitTestResult c \<noteq> ChromeButton \<longrightarrow> lastHitTestResult c' \<noteq> ChromeButton)"
proof (induction es arbitrary: c)
  case Nil
  then show ?case by simp
next
  case (Cons e es)
  then obtain out where
    w: "windowProc (ev_os e) c (ev_hWnd e) (ev_message e) (ev_wParam e) (ev_lParam e) (ev_rect e) 0 = Inr out"
    and r: "run_messages es (out_ctx out) = Inr c'"
    by (auto split: sum.splits)
  from windowProc_keeps [OF w] Cons.IH [OF r] show ?case by auto
qed

lemma run_messages_append:
  "run_messages (es @ es') c =
     (case run_messages es c of Inl err \<Rightarrow> Inl err | Inr c' \<Rightarrow> run_messages es' c')"
  by (induction es arbitrary: c) (auto split: sum.splits)

text \<open>
  Claim C6, as amended. For a message handled while the window is valid
  (\<open>isValidWindow\<close>):
  \<^item> a client-area mouse-leave that is not tagged and whose point lies over a system
    button is suppressed: it is reported as handled with result 0 and sets the flag;
  \<^item> a client-area mouse-move handled while the last hit test is not \<open>ChromeButton\<close>
    leaves the flag cleared and, when the flag was set, asks for leave tracking again
    (\<open>TrackMouseEvent\<close> with \<open>TME_LEAVE\<close>);
  \<^item> while the last hit test is \<open>ChromeButton\<close>, a non-client mouse-leave does the same.
  So from every state one message to a valid window clears the flag. Moreover, after any
  run of messages that starts with a last hit test other than \<open>ChromeButton\<close>, a
  client-area mouse-move for a valid window ends with the flag cleared. A message that
  arrives while the window is not valid is passed over: it is not handled, makes no call
  and leaves the flag as it is.
\<close>

theorem suppression_is_cleared:
  "(isValidWindow os (windowId c) False True \<longrightarrow>
      (\<not> isTaggedMessage wParam
         \<and> isInSystemButtons os (fromNativeLocalPosition os (m_windowHandle c)
              \<lparr>x_coord = GET_X_LPARAM (ucast (GetMessagePos os)),
               y_coord = GET_Y_LPARAM (ucast (GetMessagePos os))\<rparr>) \<longrightarrow>
       windowProc os c hWnd WM_MOUSELEAVE wParam lParam clientRect result =
         Inr \<lparr>out_handled = True, out_result = 0, out_ctx = c\<lparr>mouseLeaveBlocked := True\<rparr>,
              out_rect = clientRect, out_calls = []\<rparr>)
    \<and> (lastHitTestResult c \<noteq> ChromeButton \<longrightarrow>
       windowProc os c hWnd WM_MOUSEMOVE wParam lParam clientRect result =
         Inr \<lparr>out_handled = False, out_result = 0, out_ctx = c\<lparr>mouseLeaveBlocked := False\<rparr>,
              out_rect = clientRect,
              out_calls = (if mouseLeaveBlocked c
                           then [Call_TrackMouseEvent TME_LEAVE hWnd HOVER_DEFAULT] else [])\<rparr>)
    \<and> (lastHitTestResult c = ChromeButton \<longrightarrow>
       windowProc os c hWnd WM_NCMOUSELEAVE wParam lParam clientRect result =
         Inr \<lparr>out_handled = False, out_result = 0, out_ctx = c\<lparr>mouseLeaveBlocked := False\<rparr>,
              out_rect = clientRect,
              out_calls = (if mouseLeaveBlocked c
                           then [Call_TrackMouseEvent TME_LEAVE hWnd HOVER_DEFAULT] else [])\<rparr>))
   \<and> (lastHitTestResult c \<noteq> ChromeButton \<and> run_messages es c = Inr c'
        \<and> ev_message e = WM_MOUSEMOVE \<and> isValidWindow (ev_os e) (windowId c) False True \<longrightarrow>
      run_messages (es @ [e]) c = Inr (c'\<lparr>mouseLeaveBlocked := False\<rparr>))
   \<and> (\<not> isValidWindow os (windowId c) False True \<longrightarrow>
      windowProc os c hWnd message wParam lParam clientRect result =
        Inr \<lparr>out_handled = False, out_result = 0, out_ctx = c, out_rect = clientRect,
             out_calls = []\<rparr>)"
proof -
  have 1: "isValidWindow os (windowId c) False True \<Longrightarrow> \<not> isTaggedMessage wParam
         \<and> isInSystemButtons os (fromNativeLocalPosition os (m_windowHandle c)
              \<lparr>x_coord = GET_X_LPARAM (ucast (GetMessagePos os)),
               y_coord = GET_Y_LPARAM (ucast (GetMessagePos os))\<rparr>) \<Longrightarrow>
       windowProc os c hWnd WM_MOUSELEAVE wParam lParam clientRect result =
         Inr \<lparr>out_handled = True, out_result = 0, out_ctx = c\<lparr>mouseLeaveBlocked := True\<rparr>,
              out_rect = clientRect, out_calls = []\<rparr>"
    by (simp add: windowProc_mouseleave)
  have 2: "isValidWindow os (windowId c) False True \<Longrightarrow> lastHitTestResult c \<noteq> ChromeButton \<Longrightarrow>
       windowProc os c hWnd WM_MOUSEMOVE wParam lParam clientRect result =
         Inr \<lparr>out_handled = False, out_result = 0, out_ctx = c\<lparr>mouseLeaveBlocked := False\<rparr>,
              out_rect = clientRect,
              out_calls = (if mouseLeaveBlocked c
                           then [Call_TrackMouseEvent TME_LEAVE hWnd HOVER_DEFAULT] else [])\<rparr>"
    by (simp add: windowProc_mousemove)
  have 3: "isValidWindow os (windowId c) False True \<Longrightarrow> lastHitTestResult c = ChromeButton \<Longrightarrow>
       windowProc os c hWnd WM_NCMOUSELEAVE wParam lParam clientRect result =
         Inr \<lparr>out_handled = False, out_result = 0, out_ctx = c\<lparr>mouseLeaveBlocked := False\<rparr>,
              out_rect = clientRect,
              out_calls = (if mouseLeaveBlocked c
                           then [Call_TrackMouseEvent TME_LEAVE hWnd HOVER_DEFAULT] else [])\<rparr>"
    by (simp add: windowProc_ncmouseleave)
  have 4: "run_messages (es @ [e]) c = Inr (c'\<lparr>mouseLeaveBlocked := False\<rparr>)"
    if "lastHitTestResult c \<noteq> ChromeButton" "run_messages es c = Inr c'"
      "ev_message e = WM_MOUSEMOVE" "isValidWindow (ev_os e) (windowId c) False True"
  proof -
    from run_messages_keeps [OF that(2)] that(1,4)
    have "lastHitTestResult c' \<noteq> ChromeButton" "isValidWindow (ev_os e) (windowId c') False True"
      by simp_all
    then show ?thesis
      using that(2,3) by (simp add: run_messages_append windowProc_mousemove)
  qed
  have 5: "windowProc os c hWnd message wParam lParam clientRect result =
        Inr \<lparr>out_handled = False, out_result = 0, out_ctx = c, out_rect = clientRect,
             out_calls = []\<rparr>"
    if "\<not> isValidWindow os (windowId c) False True"
    using that by (simp add: windowProc_def)
  from 1 2 3 4 5 show ?thesis by blast
qed

theorem suppression_is_cleared_witness:
  "isValidWindow desktop (windowId fresh_context) False True
   \<and> \<not> isTaggedMessage 0
   \<and> lastHitTestResult fresh_context \<noteq> ChromeButton
   \<and> windowProc desktop fresh_context 0x100 WM_MOUSELEAVE 0 0 maximized_rect 0 =
       Inr \<lparr>out_handled = True, out_result = 0, out_ctx = suppressed_context,
            out_rect = maximized_rect, out_calls = []\<rparr>
   \<and> mouseLeaveBlocked suppressed_context
   \<and> windowProc desktop suppressed_context 0x100 WM_MOUSEMOVE 0 0x00640032 maximized_rect 0 =
       Inr \<lparr>out_handled = False, out_result = 0, out_ctx = fresh_context,
            out_rect = maximized_rect,
            out_calls = [Call_TrackMouseEvent TME_LEAVE 0x100 HOVER_DEFAULT]\<rparr>
   \<and> run_messages [leave_event] fresh_context = Inr suppressed_context
   \<and> run_messages ([leave_event] @ [move_event]) fresh_context = Inr fresh_context
   \<and> lastHitTestResult (hovering_context\<lparr>mouseLeaveBlocked := True\<rparr>) = ChromeButton
   \<and> windowProc desktop (hovering_context\<lparr>mouseLeaveBlocked := True\<rparr>) 0x100 WM_NCMOUSELEAVE 0 0
        maximized_rect 0 =
       Inr \<lparr>out_handled = False, out_result = 0, out_ctx = hovering_context,
            out_rect = maximized_rect,
            out_calls = [Call_TrackMouseEvent TME_LEAVE 0x100 HOVER_DEFAULT]\<rparr>
   \<and> \<not> isValidWindow desktop_disabled (windowId suppressed_context) False True
   \<and> windowProc desktop_disabled suppressed_context 0x100 WM_MOUSEMOVE 0 0x00640032
        maximized_rect 0 =
       Inr \<lparr>out_handled = False, out_result = 0, out_ctx = suppressed_context,
            out_rect = maximized_rect, out_calls = []\<rparr>"
proof -
  have v: "isValidWindow desktop (windowId fresh_context) False True"
    using desktop_valid by (simp add: fresh_context_def)
  have t: "\<not> isTaggedMessage 0" by (simp add: isTaggedMessage_def kMessageTag_def)
  have b: "isInSystemButtons desktop p" for p by (simp add: desktop_def)
  have s: "fresh_context\<lparr>mouseLeaveBlocked := True\<rparr> = suppressed_context"
    "suppressed_context\<lparr>mouseLeaveBlocked := False\<rparr> = fresh_context"
    "windowId suppressed_context = windowId fresh_context"
    "lastHitTestResult suppressed_context \<noteq> ChromeButton"
    "lastHitTestResult fresh_context \<noteq> ChromeButton"
    "mouseLeaveBlocked suppressed_context"
    by (simp_all add: suppressed_context_def fresh_context_def)
  have h: "hovering_context\<lparr>mouseLeaveBlocked := True, mouseLeaveBlocked := False\<rparr> = hovering_context"
    "windowId (hovering_context\<lparr>mouseLeaveBlocked := True\<rparr>) = windowId fresh_context"
    "lastHitTestResult (hovering_context\<lparr>mouseLeaveBlocked := True\<rparr>) = ChromeButton"
    by (simp_all add: hovering_context_def fresh_context_def)
  have leave: "windowProc desktop fresh_context 0x100 WM_MOUSELEAVE 0 0 maximized_rect 0 =
       Inr \<lparr>out_handled = True, out_result = 0, out_ctx = suppressed_context,
            out_rect = maximized_rect, out_calls = []\<rparr>"
    using suppression_is_cleared [where os = desktop and c = fresh_context and wParam = 0
        and hWnd = "0x100" and lParam = 0 and clientRect = maximized_rect and result = 0
        and es = "[]" and c' = fresh_context and e = move_event and message = WM_MOUSELEAVE]
      v t b s
    by simp
  have r1: "run_messages [leave_event] fresh_context = Inr suppressed_context"
    using leave by (simp add: leave_event_def)
  have move: "windowProc desktop suppressed_context 0x100 WM_MOUSEMOVE 0 0x00640032 maximized_rect 0 =
       Inr \<lparr>out_handled = False, out_result = 0, out_ctx = fresh_context,
            out_rect = maximized_rect,
            out_calls = [Call_TrackMouseEvent TME_LEAVE 0x100 HOVER_DEFAULT]\<rparr>
     \<and> run_messages ([leave_event] @ [move_event]) fresh_context = Inr fresh_context"
    using suppression_is_cleared [where os = desktop and c = suppressed_context and wParam = 0
        and hWnd = "0x100" and lParam = "0x00640032" and clientRect = maximized_rect
        and result = 0 and es = "[]" and c' = suppressed_context and e = move_event]
      suppression_is_cleared [where os = desktop and c = fresh_context and wParam = 0
        and hWnd = "0x100" and lParam = "0x00640032" and clientRect = maximized_rect
        and result = 0 and es = "[leave_event]" and c' = suppressed_context and e = move_event]
      v s r1
    by (simp add: move_event_def)
  have nc: "windowProc desktop (hovering_context\<lparr>mouseLeaveBlocked := True\<rparr>) 0x100 WM_NCMOUSELEAVE 0 0
        maximized_rect 0 =
       Inr \<lparr>out_handled = False, out_result = 0, out_ctx = hovering_context,
            out_rect = maximized_rect,
            out_calls = [Call_TrackMouseEvent TME_LEAVE 0x100 HOVER_DEFAULT]\<rparr>"
    using suppression_is_cleared [where os = desktop
        and c = "hovering_context\<lparr>mouseLeaveBlocked := True\<rparr>" and wParam = 0
        and hWnd = "0x100" and lParam = 0 and clientRect = maximized_rect and result = 0
        and es = "[]" and c' = fresh_context and e = leave_event] v h
    by simp
  have d: "\<not> isValidWindow desktop_disabled (windowId suppressed_context) False True"
    by (simp add: isValidWindow_def desktop_disabled_def desktop_def suppressed_context_def
        fresh_context_def Let_def win32)
  have passed: "windowProc desktop_disabled suppressed_context 0x100 WM_MOUSEMOVE 0 0x00640032
        maximized_rect 0 =
       Inr \<lparr>out_handled = False, out_result = 0, out_ctx = suppressed_context,
            out_rect = maximized_rect, out_calls = []\<rparr>"
    using suppression_is_cleared [where os = desktop_disabled and c = suppressed_context
        and wParam = 0 and hWnd = "0x100" and lParam = "0x00640032"
        and clientRect = maximized_rect and result = 0 and es = "[]"
        and c' = suppressed_context and e = leave_event and message = WM_MOUSEMOVE] d
    by simp
  from v t s leave move r1 nc h d passed show ?thesis by simp
qed

text \<open>
  Claim C6, as stated, fails: a client-area mouse-leave over a system button is
  suppressed; the window is then disabled, and the next client-area mouse-move, with the
  last hit test \<open>Outside\<close>, is passed over at the validity check: the flag stays set and
  leave tracking is not asked for.
\<close>

theorem suppression_is_cleared_counterexample:
  "windowProc desktop fresh_context 0x100 WM_MOUSELEAVE 0 0 maximized_rect 0 =
       Inr \<lparr>out_handled = True, out_result = 0, out_ctx = suppressed_context,
            out_rect = maximized_rect, out_calls = []\<rparr>
   \<and> lastHitTestResult suppressed_context \<noteq> ChromeButton
   \<and> mouseLeaveBlocked suppressed_context
   \<and> \<not> isValidWindow desktop_disabled (windowId suppressed_context) False True
   \<and> windowProc desktop_disabled suppressed_context 0x100 WM_MOUSEMOVE 0 0x00640032
        maximized_rect 0 =
       Inr \<lparr>out_handled = False, out_result = 0, out_ctx = suppressed_context,
            out_rect = maximized_rect, out_calls = []\<rparr>"
proof -
  have v: "isValidWindow desktop (windowId fresh_context) False True"
    using desktop_valid by (simp add: fresh_context_def)
  have t: "\<not> isTaggedMessage 0" by (simp add: isTaggedMessage_def kMessageTag_def)
  have b: "isInSystemButtons desktop p" for p by (simp add: desktop_def)
  have s: "fresh_context\<lparr>mouseLeaveBlocked := True\<rparr> = suppressed_context"
    "lastHitTestResult suppressed_context \<noteq> ChromeButton"
    "mouseLeaveBlocked suppressed_context"
    by (simp_all add: suppressed_context_def fresh_context_def)
  have leave: "windowProc desktop fresh_context 0x100 WM_MOUSELEAVE 0 0 maximized_rect 0 =
       Inr \<lparr>out_handled = True, out_result = 0, out_ctx = suppressed_context,
            out_rect = maximized_rect, out_calls = []\<rparr>"
    using windowProc_mouseleave [OF v, of "0x100" 0 0 maximized_rect 0] t b s by simp
  have d: "\<not> isValidWindow desktop_disabled (windowId suppressed_context) False True"
    by (simp add: isValidWindow_def desktop_disabled_def desktop_def suppressed_context_def
        fresh_context_def Let_def win32)
  have m: "WM_MOUSEMOVE \<notin> set teardownMessages"
    by (simp add: teardownMessages_def win32)
  have move: "windowProc desktop_disabled suppressed_context 0x100 WM_MOUSEMOVE 0 0x00640032
        maximized_rect 0 =
       Inr \<lparr>out_handled = False, out_result = 0, out_ctx = suppressed_context,
            out_rect = maximized_rect, out_calls = []\<rparr>"
    using d m by (simp add: windowProc_def)
  from leave s d move show ?thesis by simp
qed

text \<open>
  Claim C7, as amended. A non-client mouse-move that arrives while the last hit test is
  \<open>ChromeButton\<close> is handled: it posts one client-area mouse-move, calls the default
  procedure, and itself resets the last hit test to \<open>Outside\<close>. The non-client
  mouse-leave that arrives next is not handled and leaves the last hit test as it is;
  it posts one tagged client-area mouse-leave when a suppressed leave is pending and
  none otherwise, and resets the grabbed control.
\<close>

theorem chrome_move_then_leave:
  assumes "lastHitTestResult c = ChromeButton"
    and "isValidWindow os1 (windowId c) False True"
    and "isValidWindow os2 (windowId c) False True"
  shows "windowProc os1 c hWnd WM_NCMOUSEMOVE wParam1 lParam1 rect1 result1 =
           Inr \<lparr>out_handled = True,
                out_result = DefWindowProcW os1 hWnd WM_NCMOUSEMOVE wParam1 lParam1,
                out_ctx = c\<lparr>lastHitTestResult := Outside\<rparr>, out_rect = rect1,
                out_calls =
                  [Call_PostMessageW hWnd WM_MOUSEMOVE (getKeyState os1)
                     (client_lParam os1 hWnd lParam1),
                   Call_DefWindowProcW hWnd WM_NCMOUSEMOVE wParam1 lParam1]\<rparr>
       \<and> windowProc os2 (c\<lparr>lastHitTestResult := Outside\<rparr>) hWnd WM_NCMOUSELEAVE wParam2 lParam2
            rect2 result2 =
           Inr \<lparr>out_handled = False, out_result = 0,
                out_ctx = c\<lparr>lastHitTestResult := Outside\<rparr>, out_rect = rect2,
                out_calls =
                  (if mouseLeaveBlocked c
                   then [Call_PostMessageW hWnd WM_MOUSELEAVE kMessageTag 0] else [])
                  @ [Call_resetQtGrabbedControl]\<rparr>"
proof -
  have nc: "WM_NCMOUSEMOVE \<in> set nonClientMouseMessages"
    by (simp add: nonClientMouseMessages_def)
  from emulate_nonclient [OF nc, of os1 hWnd wParam1 lParam1]
  have e: "emulateClientAreaMessage os1 hWnd WM_NCMOUSEMOVE wParam1 lParam1 None =
      [Call_PostMessageW hWnd WM_MOUSEMOVE (getKeyState os1) (client_lParam os1 hWnd lParam1)]"
    by (auto simp: clientAreaMessage_def) (simp_all add: win32)
  have first: "windowProc os1 c hWnd WM_NCMOUSEMOVE wParam1 lParam1 rect1 result1 =
           Inr \<lparr>out_handled = True,
                out_result = DefWindowProcW os1 hWnd WM_NCMOUSEMOVE wParam1 lParam1,
                out_ctx = c\<lparr>lastHitTestResult := Outside\<rparr>, out_rect = rect1,
                out_calls =
                  [Call_PostMessageW hWnd WM_MOUSEMOVE (getKeyState os1)
                     (client_lParam os1 hWnd lParam1),
                   Call_DefWindowProcW hWnd WM_NCMOUSEMOVE wParam1 lParam1]\<rparr>"
    using assms(1,2) nc nonClientMouseMessages_distinct [OF nc]
    by (simp add: windowProc_def snapLayoutHandler_def e Let_def)
  have second: "windowProc os2 (c\<lparr>lastHitTestResult := Outside\<rparr>) hWnd WM_NCMOUSELEAVE wParam2
            lParam2 rect2 result2 =
           Inr \<lparr>out_handled = False, out_result = 0,
                out_ctx = c\<lparr>lastHitTestResult := Outside\<rparr>, out_rect = rect2,
                out_calls =
                  (if mouseLeaveBlocked c
                   then [Call_PostMessageW hWnd WM_MOUSELEAVE kMessageTag 0] else [])
                  @ [Call_resetQtGrabbedControl]\<rparr>"
    using assms(3) by (simp add: windowProc_ncmouseleave)
  from first second show ?thesis by simp
qed

text \<open>A suppressed leave is pending: one client-area mouse-leave is posted.\<close>

theorem chrome_move_then_leave_witness:
  "lastHitTestResult (hovering_context\<lparr>mouseLeaveBlocked := True\<rparr>) = ChromeButton
   \<and> isValidWindow desktop (windowId (hovering_context\<lparr>mouseLeaveBlocked := True\<rparr>)) False True
   \<and> windowProc desktop (hovering_context\<lparr>mouseLeaveBlocked := True\<rparr>) 0x100 WM_NCMOUSEMOVE 0
        0x00640032 maximized_rect 0 =
       Inr \<lparr>out_handled = True, out_result = 0, out_ctx = suppressed_context,
            out_rect = maximized_rect,
            out_calls = [Call_PostMessageW 0x100 WM_MOUSEMOVE 0 0x00640032,
                         Call_DefWindowProcW 0x100 WM_NCMOUSEMOVE 0 0x00640032]\<rparr>
   \<and> windowProc desktop suppressed_context 0x100 WM_NCMOUSELEAVE 0 0 maximized_rect 0 =
       Inr \<lparr>out_handled = False, out_result = 0, out_ctx = suppressed_context,
            out_rect = maximized_rect,
            out_calls = [Call_PostMessageW 0x100 WM_MOUSELEAVE kMessageTag 0,
                         Call_resetQtGrabbedControl]\<rparr>"
proof -
  have v: "isValidWindow desktop (windowId (hovering_context\<lparr>mouseLeaveBlocked := True\<rparr>)) False True"
    using desktop_valid by (simp add: fresh_context_def hovering_context_def)
  have h: "lastHitTestResult (hovering_context\<lparr>mouseLeaveBlocked := True\<rparr>) = ChromeButton"
    "hovering_context\<lparr>mouseLeaveBlocked := True, lastHitTestResult := Outside\<rparr>
       = suppressed_context"
    "mouseLeaveBlocked (hovering_context\<lparr>mouseLeaveBlocked := True\<rparr>)"
    by (simp_all add: hovering_context_def suppressed_context_def fresh_context_def)
  have k: "getKeyState desktop = 0"
    by (simp add: getKeyState_def desktop_def Let_def win32)
  have l: "client_lParam desktop 0x100 0x00640032 = 0x00640032"
    by (simp add: client_lParam_def desktop_def Let_def
        GET_X_LPARAM_def GET_Y_LPARAM_def MAKELPARAM_def MAKELONG_def LOWORD_def HIWORD_def)
  have d: "DefWindowProcW desktop 0x100 WM_NCMOUSEMOVE 0 0x00640032 = 0"
    by (simp add: desktop_def)
  from chrome_move_then_leave [OF h(1) v v, of "0x100" 0 "0x00640032" maximized_rect 0 0 0
      maximized_rect 0] v h k l d
  show ?thesis by simp
qed

text \<open>
  Claim C7, as stated, fails: with no suppressed leave pending, the two messages post one
  client-area mouse-move and no client-area mouse-leave, and the last hit test is
  \<open>Outside\<close> as soon as the non-client mouse-move has been handled.
\<close>

theorem chrome_move_then_leave_counterexample:
  "lastHitTestResult hovering_context = ChromeButton
   \<and> windowProc desktop hovering_context 0x100 WM_NCMOUSEMOVE 0 0x00640032 maximized_rect 0 =
       Inr \<lparr>out_handled = True, out_result = 0, out_ctx = fresh_context,
            out_rect = maximized_rect,
            out_calls = [Call_PostMessageW 0x100 WM_MOUSEMOVE 0 0x00640032,
                         Call_DefWindowProcW 0x100 WM_NCMOUSEMOVE 0 0x00640032]\<rparr>
   \<and> lastHitTestResult fresh_context = Outside
   \<and> windowProc desktop fresh_context 0x100 WM_NCMOUSELEAVE 0 0 maximized_rect 0 =
       Inr \<lparr>out_handled = False, out_result = 0, out_ctx = fresh_context,
            out_rect = maximized_rect, out_calls = [Call_resetQtGrabbedControl]\<rparr>"
proof -
  have v: "isValidWindow desktop (windowId fresh_context) False True"
    "isValidWindow desktop (windowId hovering_context) False True"
    using desktop_valid by (simp_all add: fresh_context_def hovering_context_def)
  have k: "getKeyState desktop = 0"
    by (simp add: getKeyState_def desktop_def Let_def win32)
  have e: "emulateClientAreaMessage desktop 0x100 WM_NCMOUSEMOVE 0 0x00640032 None =
       [Call_PostMessageW 0x100 WM_MOUSEMOVE 0 0x00640032]"
    unfolding emulateClientAreaMessage_def k
    by (simp add: clientAreaMessage_def desktop_def Let_def win32
        GET_X_LPARAM_def GET_Y_LPARAM_def MAKELPARAM_def MAKELONG_def LOWORD_def HIWORD_def)
  have nc: "WM_NCMOUSEMOVE \<in> set nonClientMouseMessages"
    by (simp add: nonClientMouseMessages_def)
  have h: "hovering_context\<lparr>lastHitTestResult := Outside\<rparr> = fresh_context"
    "lastHitTestResult hovering_context = ChromeButton"
    "lastHitTestResult fresh_context = Outside" "\<not> mouseLeaveBlocked fresh_context"
    by (simp_all add: hovering_context_def fresh_context_def)
  have first: "windowProc desktop hovering_context 0x100 WM_NCMOUSEMOVE 0 0x00640032 maximized_rect 0 =
       Inr \<lparr>out_handled = True, out_result = 0, out_ctx = fresh_context,
            out_rect = maximized_rect,
            out_calls = [Call_PostMessageW 0x100 WM_MOUSEMOVE 0 0x00640032,
                         Call_DefWindowProcW 0x100 WM_NCMOUSEMOVE 0 0x00640032]\<rparr>"
    using v h nc nonClientMouseMessages_distinct [OF nc]
    by (simp add: windowProc_def snapLayoutHandler_def e Let_def) (simp add: desktop_def)
  have second: "windowProc desktop fresh_context 0x100 WM_NCMOUSELEAVE 0 0 maximized_rect 0 =
       Inr \<lparr>out_handled = False, out_result = 0, out_ctx = fresh_context,
            out_rect = maximized_rect, out_calls = [Call_resetQtGrabbedControl]\<rparr>"
    using v h by (simp add: windowProc_ncmouseleave)
  from h first second show ?thesis by simp
qed

section \<open>The hooked window procedure\<close>

lemma windowProc_returns:
  assumes "hWnd \<noteq> 0"
  shows "\<exists>out. windowProc os c hWnd message wParam lParam clientRect result = Inr out"
proof -
  obtain h r c' cs where s: "snapLayoutHandler os c hWnd message wParam lParam 0 = (h, r, c', cs)"
    by (metis prod_cases4)
  from customWindowHandler_returns [OF assms, of os message wParam lParam clientRect r]
  obtain h2 r2 rect2 cs2 where
    "customWindowHandler os hWnd message wParam lParam clientRect r = Inr (h2, r2, rect2, cs2)"
    by blast
  with s show ?thesis by (simp add: windowProc_def)
qed

text \<open>
  Claim C4, as amended. For a message whose window handle is not null: when the handle
  has no registered context, the hooked procedure only forwards the message to the
  default procedure of the operating system and returns its result, changing nothing;
  when a context is registered, it runs the message handler of that context, stores
  whether the handler claimed the message and with what result in
  \<open>lastMessageHandled\<close> and \<open>lastMessageResult\<close>, and then, whatever the handler
  answered, forwards the message to the original procedure \<open>g_qtWindowProc\<close> and returns
  its result. (A message with a null handle is answered with \<open>FALSE\<close> and forwarded
  nowhere.)
\<close>

theorem hooked_procedure_forwards:
  assumes "hWnd \<noteq> 0"
  shows "(QHash_value (g_wndProcHash s) hWnd = 0 \<longrightarrow>
            QWKHookedWndProc os s hWnd message wParam lParam clientRect =
              Inr (DefWindowProcW os hWnd message wParam lParam, s, clientRect,
                   [Call_DefWindowProcW hWnd message wParam lParam]))
       \<and> (QHash_value (g_wndProcHash s) hWnd \<noteq> 0 \<longrightarrow>
            (\<exists>out. windowProc os (objects s (QHash_value (g_wndProcHash s) hWnd)) hWnd message
                      wParam lParam clientRect (lastMessageResult s) = Inr out
               \<and> QWKHookedWndProc os s hWnd message wParam lParam clientRect =
                   Inr (CallWindowProcW os (g_qtWindowProc s) hWnd message wParam lParam,
                        s\<lparr>lastMessageHandled := out_handled out,
                          lastMessageResult := out_result out,
                          objects := (objects s)
                            (QHash_value (g_wndProcHash s) hWnd := out_ctx out)\<rparr>,
                        out_rect out,
                        out_calls out
                          @ [Call_CallWindowProcW (g_qtWindowProc s) hWnd message wParam lParam])))"
proof -
  obtain out where "windowProc os (objects s (QHash_value (g_wndProcHash s) hWnd)) hWnd message
      wParam lParam clientRect (lastMessageResult s) = Inr out"
    using windowProc_returns [OF assms] by blast
  with assms show ?thesis
    by (auto simp: QWKHookedWndProc_def Let_def)
qed

lemma hooked_state_lookup: "QHash_value (g_wndProcHash hooked_state) 0x200 = 0"
    "QHash_value (g_wndProcHash hooked_state) 0x100 = 0x7000"
    by (simp_all add: QHash_value_def hooked_state_def)
lemma hooked_state_fields: "objects hooked_state 0x7000 = fresh_context"
    "(objects hooked_state)(0x7000 := fresh_context) = objects hooked_state"
    "g_qtWindowProc hooked_state = other_WNDPROC 1"
    by (auto simp: hooked_state_def)
lemma fresh_context_valid: "isValidWindow desktop (windowId fresh_context) False True"
    using desktop_valid by (simp add: fresh_context_def)
lemma desktop_nccalcsize: "customWindowHandler desktop 0x100 WM_NCCALCSIZE 1 0 maximized_rect 0 =
     Inr (True, 0x300,
          \<lparr>left_edge = 0, top_edge = 0, right_edge = 1920, bottom_edge = 1040\<rparr>,
          [Call_DefWindowProcW 0x100 WM_NCCALCSIZE 1 0])"
    by (simp add: customWindowHandler_def applyDefaultFrame_def applyMaximizedFrame_def
        applyAutoHideTaskbar_def isFullScreen_def getMonitorForWindow_def
        getResizeBorderThickness_def getDpiForWindow_def desktop_def desktop_apis_def
        maximized_rect_def monitor_rect_def default_frame_def Let_def win32)
lemma snapLayoutHandler_nccalcsize: "snapLayoutHandler os cx h WM_NCCALCSIZE wp lp r = (False, r, cx, [])"
  by (simp add: snapLayoutHandler_def nonClientMouseMessages_def win32)
lemma desktop_windowProc_nccalcsize: "windowProc desktop fresh_context 0x100 WM_NCCALCSIZE 1 0 maximized_rect r =
     Inr \<lparr>out_handled = True, out_result = 0x300, out_ctx = fresh_context,
          out_rect = \<lparr>left_edge = 0, top_edge = 0, right_edge = 1920, bottom_edge = 1040\<rparr>,
          out_calls = [Call_DefWindowProcW 0x100 WM_NCCALCSIZE 1 0]\<rparr>"
proof -
  have "WM_NCCALCSIZE \<notin> set teardownMessages" by (simp add: teardownMessages_def win32)
  then show ?thesis
    using fresh_context_valid desktop_nccalcsize
    by (simp add: windowProc_def snapLayoutHandler_nccalcsize)
qed

lemma desktop_procedures: "DefWindowProcW desktop h m wp lp = 0" "CallWindowProcW desktop p h m wp lp = 0"
    by (simp_all add: desktop_def)

theorem hooked_procedure_forwards_witness:
  "(0x100 :: HWND) \<noteq> 0 \<and> (0x200 :: HWND) \<noteq> 0
   \<and> QHash_value (g_wndProcHash hooked_state) 0x200 = 0
   \<and> QWKHookedWndProc desktop hooked_state 0x200 WM_NCCALCSIZE 1 0 maximized_rect =
        Inr (0, hooked_state, maximized_rect, [Call_DefWindowProcW 0x200 WM_NCCALCSIZE 1 0])
   \<and> QHash_value (g_wndProcHash hooked_state) 0x100 = 0x7000
   \<and> QWKHookedWndProc desktop hooked_state 0x100 WM_NCCALCSIZE 1 0 maximized_rect =
        Inr (0,
             hooked_state\<lparr>lastMessageHandled := True, lastMessageResult := WVR_REDRAW\<rparr>,
             \<lparr>left_edge = 0, top_edge = 0, right_edge = 1920, bottom_edge = 1040\<rparr>,
             [Call_DefWindowProcW 0x100 WM_NCCALCSIZE 1 0,
              Call_CallWindowProcW (other_WNDPROC 1) 0x100 WM_NCCALCSIZE 1 0])"
proof -
  have n: "(0x100 :: HWND) \<noteq> 0" "(0x200 :: HWND) \<noteq> 0" "(0x7000 :: ptr) \<noteq> 0" by simp_all
  have first: "QWKHookedWndProc desktop hooked_state 0x200 WM_NCCALCSIZE 1 0 maximized_rect =
        Inr (0, hooked_state, maximized_rect, [Call_DefWindowProcW 0x200 WM_NCCALCSIZE 1 0])"
    using hooked_procedure_forwards [OF n(2), of hooked_state desktop WM_NCCALCSIZE 1 0 maximized_rect]
    by (simp add: hooked_state_lookup desktop_procedures)
  have e: "hooked_state\<lparr>lastMessageHandled := True, lastMessageResult := 0x300,
             objects := objects hooked_state\<rparr> =
           hooked_state\<lparr>lastMessageHandled := True, lastMessageResult := WVR_REDRAW\<rparr>"
    by (simp add: WVR_REDRAW_def)
  have second: "QWKHookedWndProc desktop hooked_state 0x100 WM_NCCALCSIZE 1 0 maximized_rect =
        Inr (0,
             hooked_state\<lparr>lastMessageHandled := True, lastMessageResult := WVR_REDRAW\<rparr>,
             \<lparr>left_edge = 0, top_edge = 0, right_edge = 1920, bottom_edge = 1040\<rparr>,
             [Call_DefWindowProcW 0x100 WM_NCCALCSIZE 1 0,
              Call_CallWindowProcW (other_WNDPROC 1) 0x100 WM_NCCALCSIZE 1 0])"
    using hooked_procedure_forwards [OF n(1), of hooked_state desktop WM_NCCALCSIZE 1 0 maximized_rect]
    by (simp add: hooked_state_lookup hooked_state_fields desktop_windowProc_nccalcsize
        desktop_procedures e)
  from n hooked_state_lookup first second show ?thesis by simp
qed

text \<open>
  Claim C4, as stated, fails: a message with a null handle, for which no context is
  registered, is not forwarded to the default procedure; the hooked procedure returns 0
  and makes no call.
\<close>

theorem hooked_procedure_forwards_counterexample:
  "QHash_value (g_wndProcHash hooked_state) 0 = 0
   \<and> QWKHookedWndProc desktop hooked_state 0 WM_NCCALCSIZE 1 0 maximized_rect =
        Inr (0, hooked_state, maximized_rect, [])"
  by (simp add: QWKHookedWndProc_def QHash_value_def hooked_state_def)

section \<open>Attaching and detaching the hook\<close>

lemma SetWindowLongPtrW_WNDPROC_fields:
  "g_qtWindowProc (SetWindowLongPtrW_WNDPROC hWnd p s) = g_qtWindowProc s"
  "instance_ptr (SetWindowLongPtrW_WNDPROC hWnd p s) = instance_ptr s"
  "objects (SetWindowLongPtrW_WNDPROC hWnd p s) = objects s"
  "g_wndProcHash (SetWindowLongPtrW_WNDPROC hWnd p s) = g_wndProcHash s"
  "nativeEventFilters (SetWindowLongPtrW_WNDPROC hWnd p s) = nativeEventFilters s"
  by (simp_all add: SetWindowLongPtrW_WNDPROC_def split: option.splits)

lemma setup_again:
  assumes first: "Win32WindowContext_setup os this s = Inr (ok, s1)"
    and recorded: "g_qtWindowProc s1 \<noteq> null_WNDPROC"
    and same: "QWindow_winId os' (m_windowHandle (objects s this))
                 = QWindow_winId os (m_windowHandle (objects s this))"
  shows "Win32WindowContext_setup os' this s1 = Inr (True, s1)"
proof -
  let ?w = "m_windowHandle (objects s this)"
  let ?h = "QWindow_winId os ?w"
  from first have nz: "?w \<noteq> 0"
    by (auto simp: Win32WindowContext_setup_def split: if_splits)
  define sa where "sa = (if g_qtWindowProc s = null_WNDPROC
                   then s\<lparr>g_qtWindowProc := GetWindowLongPtrW_WNDPROC s ?h\<rparr> else s)"
  define sb where "sb = SetWindowLongPtrW_WNDPROC ?h QWKHookedWndProc_address sa"
  define sc where "sc = (if instance_ptr sb = None then install (operator_new os) sb else sb)"
  have "Win32WindowContext_setup os this s =
      Inr (True, sc\<lparr>objects := (objects sc)(this := (objects sc this)\<lparr>windowId := ?h\<rparr>),
        g_wndProcHash := QHash_insert ?h this (g_wndProcHash sc)\<rparr>)"
    using nz unfolding sa_def sb_def sc_def
    by (simp add: Win32WindowContext_setup_def Let_def)
  with first have s1: "s1 = sc\<lparr>objects := (objects sc)(this := (objects sc this)\<lparr>windowId := ?h\<rparr>),
        g_wndProcHash := QHash_insert ?h this (g_wndProcHash sc)\<rparr>"
    by simp
  have obj: "objects sc = objects s"
    by (simp add: sc_def sb_def sa_def install_def SetWindowLongPtrW_WNDPROC_fields)
  have inst: "instance_ptr sc \<noteq> None"
    by (simp add: sc_def install_def)
  have g: "g_qtWindowProc s1 = g_qtWindowProc sc"
    by (simp add: s1)
  have w1: "m_windowHandle (objects s1 this) = ?w"
    by (simp add: s1 obj)
  have set_id: "SetWindowLongPtrW_WNDPROC ?h QWKHookedWndProc_address s1 = s1"
  proof -
    have "window_procedures s1 = window_procedures sb"
      by (simp add: s1 sc_def install_def)
    moreover have "window_procedures sb ?h = None \<or> window_procedures sb ?h = Some QWKHookedWndProc_address"
      by (simp add: sb_def SetWindowLongPtrW_WNDPROC_def split: option.splits)
    ultimately show ?thesis
      by (auto simp: SetWindowLongPtrW_WNDPROC_def fun_upd_idem)
  qed
  have upd_id: "s1\<lparr>objects := (objects s1)(this := (objects s1 this)\<lparr>windowId := ?h\<rparr>),
        g_wndProcHash := QHash_insert ?h this (g_wndProcHash s1)\<rparr> = s1"
    by (simp add: s1 QHash_insert_def)
  have inst1: "instance_ptr s1 \<noteq> None"
    using inst by (simp add: s1)
  show ?thesis
    using recorded nz inst1 same
    by (auto simp: Win32WindowContext_setup_def Let_def w1 set_id upd_id)
qed

lemma destroy_again:
  assumes "windowId (objects s that) = windowId (objects s this)"
  shows "Win32WindowContext_destroy that (Win32WindowContext_destroy this s) =
     Win32WindowContext_destroy this s"
  using assms
  by (auto simp: Win32WindowContext_destroy_def Let_def QHash_remove_def uninstall_def
      AList.delete_idem)

text \<open>
  Claim C9. When a first \<open>setup\<close> has recorded an original window procedure, a
  second \<open>setup\<close> of the same context for the same window returns \<open>true\<close> and leaves
  the whole state of the process as the first call left it: the hash keeps one entry for
  the window (keys stay distinct), \<open>g_qtWindowProc\<close> is not overwritten, no second
  filter is created or installed. Destroying a context a second time, or destroying a
  second context that was set up on the same window, changes nothing either: the
  filter, already removed and with \<open>instance\<close> null, is not removed again.
\<close>

theorem attach_detach_idempotent:
  "(Win32WindowContext_setup os this s = Inr (ok, s1)
      \<and> g_qtWindowProc s1 \<noteq> null_WNDPROC
      \<and> QWindow_winId os' (m_windowHandle (objects s this))
            = QWindow_winId os (m_windowHandle (objects s this)) \<longrightarrow>
    Win32WindowContext_setup os' this s1 = Inr (True, s1)
      \<and> (distinct (map fst (g_wndProcHash s)) \<longrightarrow> distinct (map fst (g_wndProcHash s1))))
   \<and> Win32WindowContext_destroy this (Win32WindowContext_destroy this s) =
       Win32WindowContext_destroy this s
   \<and> (windowId (objects s that) = windowId (objects s this) \<longrightarrow>
       Win32WindowContext_destroy that (Win32WindowContext_destroy this s) =
         Win32WindowContext_destroy this s)"
proof -
  have d: "distinct (map fst (g_wndProcHash s1))"
    if "Win32WindowContext_setup os this s = Inr (ok, s1)" "distinct (map fst (g_wndProcHash s))"
  proof -
    from that(1) have "g_wndProcHash s1 =
        QHash_insert (QWindow_winId os (m_windowHandle (objects s this))) this (g_wndProcHash s)"
      by (auto simp: Win32WindowContext_setup_def Let_def install_def
          SetWindowLongPtrW_WNDPROC_fields split: if_splits)
    with that(2) show ?thesis
      by (simp add: QHash_insert_def distinct_update)
  qed
  from d setup_again [of os this s ok s1 os'] destroy_again [of s this this]
    destroy_again [of s that this]
  show ?thesis by blast
qed

lemma unhooked_setup:
  "Win32WindowContext_setup desktop 0x7000 unhooked_state = Inr (True, attached_state)"
  by (simp add: Win32WindowContext_setup_def unhooked_state_def attached_state_def
      GetWindowLongPtrW_WNDPROC_def SetWindowLongPtrW_WNDPROC_def install_def QHash_insert_def
      desktop_def fresh_context_def Let_def)

lemma attached_destroy:
  "Win32WindowContext_destroy 0x7000 attached_state = detached_state"
  by (simp add: Win32WindowContext_destroy_def attached_state_def detached_state_def
      QHash_remove_def uninstall_def fresh_context_def Let_def)

theorem attach_detach_idempotent_witness:
  "Win32WindowContext_setup desktop 0x7000 unhooked_state = Inr (True, attached_state)
   \<and> g_qtWindowProc attached_state \<noteq> null_WNDPROC
   \<and> QWindow_winId desktop_later (m_windowHandle (objects unhooked_state 0x7000))
        = QWindow_winId desktop (m_windowHandle (objects unhooked_state 0x7000))
   \<and> Win32WindowContext_setup desktop_later 0x7000 attached_state = Inr (True, attached_state)
   \<and> distinct (map fst (g_wndProcHash attached_state))
   \<and> Win32WindowContext_destroy 0x7000 attached_state = detached_state
   \<and> Win32WindowContext_destroy 0x7000 detached_state = detached_state
   \<and> nativeEventFilters attached_state = [0x9000] \<and> nativeEventFilters detached_state = []"
proof -
  have g: "g_qtWindowProc attached_state \<noteq> null_WNDPROC"
    by (simp add: attached_state_def)
  have w: "QWindow_winId desktop_later (m_windowHandle (objects unhooked_state 0x7000))
        = QWindow_winId desktop (m_windowHandle (objects unhooked_state 0x7000))"
    by (simp add: desktop_later_def)
  have f: "distinct (map fst (g_wndProcHash attached_state))"
    "nativeEventFilters attached_state = [0x9000]" "nativeEventFilters detached_state = []"
    by (simp_all add: attached_state_def detached_state_def)
  from attach_detach_idempotent [of desktop "0x7000" unhooked_state True attached_state
      desktop_later "0x7000"] unhooked_setup g w
  have again: "Win32WindowContext_setup desktop_later 0x7000 attached_state = Inr (True, attached_state)"
    by simp
  from attach_detach_idempotent [of desktop "0x7000" attached_state True attached_state
      desktop "0x7000"]
  have "Win32WindowContext_destroy 0x7000 (Win32WindowContext_destroy 0x7000 attached_state) =
       Win32WindowContext_destroy 0x7000 attached_state"
    by simp
  then have twice: "Win32WindowContext_destroy 0x7000 detached_state = detached_state"
    by (simp add: attached_destroy)
  from unhooked_setup g w again f attached_destroy twice show ?thesis by simp
qed

end
